theory Spec2Isabelle
  imports Complex_Main "HOL-Library.Sublist" "HOL-Library.AList" "HOL-Library.Product_Lexorder"
begin

section \<open>Python values used by the ingestion code\<close>

text \<open>
  Strings are \<open>string\<close>, one \<open>char\<close> per character, and the model covers ASCII text:
  the whitespace, digit and letter classes below are Python's classes restricted to
  ASCII. Exceptions are values of \<open>py_error\<close>; a function that can raise returns
  \<open>py_error + 'a\<close> with \<open>Inl\<close> for the exception.
\<close>

datatype py_error =
    ValueError
  | InvalidOperation
  | KeyError
  | CardinalityViolation
  | HTTPException nat

definition bind_err :: "'e + 'a \<Rightarrow> ('a \<Rightarrow> 'e + 'b) \<Rightarrow> 'e + 'b" where
  "bind_err r f = (case r of Inl e \<Rightarrow> Inl e | Inr x \<Rightarrow> f x)"

subsection \<open>The string methods the code calls\<close>

text \<open>\<open>str.isspace\<close> on ASCII: tab, line feed, vertical tab, form feed, carriage return,
  the four separators 0x1C to 0x1F, and the space.\<close>

definition is_space :: "char \<Rightarrow> bool" where
  "is_space c = (c \<in> set [CHR 0x09, CHR 0x0A, CHR 0x0B, CHR 0x0C, CHR 0x0D,
                            CHR 0x1C, CHR 0x1D, CHR 0x1E, CHR 0x1F, CHR 0x20])"

definition is_digit :: "char \<Rightarrow> bool" where
  "is_digit c = (c \<in> set ''0123456789'')"

definition str_lstrip :: "string \<Rightarrow> string" where
  "str_lstrip s = dropWhile is_space s"

definition str_rstrip :: "string \<Rightarrow> string" where
  "str_rstrip s = rev (dropWhile is_space (rev s))"

definition str_strip :: "string \<Rightarrow> string" where
  "str_strip s = str_rstrip (str_lstrip s)"

text \<open>\<open>s.replace(old, new)\<close>: every occurrence of \<open>old\<close>, found left to right without
  overlap, becomes \<open>new\<close>. With an empty \<open>old\<close> Python puts \<open>new\<close> around every character.\<close>

fun replace_scan :: "string \<Rightarrow> string \<Rightarrow> string \<Rightarrow> string" where
  "replace_scan old new [] = []"
| "replace_scan old new (c # cs) =
     (if prefix old (c # cs) then new @ replace_scan old new (drop (length old - 1) cs)
      else c # replace_scan old new cs)"

definition str_replace :: "string \<Rightarrow> string \<Rightarrow> string \<Rightarrow> string" where
  "str_replace old new s =
     (if old = [] then new @ concat (map (\<lambda>c. c # new) s) else replace_scan old new s)"

text \<open>\<open>s.split(sep)\<close> for a one-character separator: always at least one part.\<close>

fun str_split :: "char \<Rightarrow> string \<Rightarrow> string list" where
  "str_split sep [] = [[]]"
| "str_split sep (c # cs) =
     (if c = sep then [] # str_split sep cs
      else (case str_split sep cs of [] \<Rightarrow> [[c]] | p # ps \<Rightarrow> (c # p) # ps))"

definition upper_char :: "char \<Rightarrow> char" where
  "upper_char c =
     (case map_of (zip ''abcdefghijklmnopqrstuvwxyz'' ''ABCDEFGHIJKLMNOPQRSTUVWXYZ'') c of
        Some u \<Rightarrow> u
      | None \<Rightarrow> c)"

definition str_upper :: "string \<Rightarrow> string" where
  "str_upper s = map upper_char s"

definition startswith :: "string \<Rightarrow> string \<Rightarrow> bool" where
  "startswith s p = prefix p s"

definition endswith :: "string \<Rightarrow> string \<Rightarrow> bool" where
  "endswith s p = suffix p s"

text \<open>\<open>s.isdigit()\<close>: a non-empty string of digits. \<open>int(s)\<close> on such a string is its
  decimal value.\<close>

definition str_isdigit :: "string \<Rightarrow> bool" where
  "str_isdigit s = (s \<noteq> [] \<and> list_all is_digit s)"

definition digit_val :: "char \<Rightarrow> nat" where
  "digit_val c =
     (case map_of (zip ''0123456789'' [0, 1, 2, 3, 4, 5, 6, 7, 8, 9]) c of
        Some n \<Rightarrow> n
      | None \<Rightarrow> 0)"

definition int_of_digits :: "string \<Rightarrow> nat" where
  "int_of_digits s = foldl (\<lambda>n c. 10 * n + digit_val c) 0 s"

text \<open>The regular expression \<open>\d{n}\<close> under \<open>re.fullmatch\<close>.\<close>

definition fullmatch_digits :: "nat \<Rightarrow> string \<Rightarrow> bool" where
  "fullmatch_digits n s = (length s = n \<and> list_all is_digit s)"

text \<open>The decimal numeral of a natural number, and the format \<open>:02d\<close>, which pads it with
  a zero to two characters.\<close>

fun str_of_nat :: "nat \<Rightarrow> string" where
  "str_of_nat n =
     (if n < 10 then [''0123456789'' ! n]
      else str_of_nat (n div 10) @ [''0123456789'' ! (n mod 10)])"

definition format_02d :: "nat \<Rightarrow> string" where
  "format_02d n = (if n < 10 then CHR ''0'' # str_of_nat n else str_of_nat n)"

subsection \<open>Decimal numbers\<close>

text \<open>
  A \<open>decimal.Decimal\<close> is a sign, a coefficient and an exponent (the number
  \<open>\<plusminus> coefficient * 10 ^ exponent\<close>), or an infinity, or a quiet or signalling
  not-a-number with its payload. The flag is \<open>True\<close> for a negative sign.
\<close>

datatype decimal =
    Finite bool nat int
  | Infinity bool
  | NaN bool bool nat

fun decimal_value :: "decimal \<Rightarrow> real option" where
  "decimal_value (Finite neg c e) =
     Some ((if neg then - 1 else 1) * (if 0 \<le> e then of_nat c * 10 ^ nat e else of_nat c / 10 ^ nat (- e)))"
| "decimal_value (Infinity neg) = None"
| "decimal_value (NaN neg sig payload) = None"

text \<open>
  The constructor \<open>Decimal(value)\<close> on a string, after the grammar of the decimal module:
  surrounding whitespace and every underscore are dropped, then an optional sign is
  followed by a number (digits with an optional fraction and an optional exponent, at
  least one digit before the exponent), by \<open>Inf\<close> or \<open>Infinity\<close>, or by \<open>NaN\<close> or \<open>sNaN\<close>
  with optional payload digits, letters in either case. Anything else raises
  \<open>InvalidOperation\<close>.
\<close>

definition parse_exponent :: "string \<Rightarrow> int option" where
  "parse_exponent r =
     (case r of
        [] \<Rightarrow> Some 0
      | c # t \<Rightarrow>
          if c \<noteq> CHR ''E'' then None
          else (case t of
                  [] \<Rightarrow> None
                | s # ds \<Rightarrow>
                    if s = CHR ''-'' then (if str_isdigit ds then Some (- int (int_of_digits ds)) else None)
                    else if s = CHR ''+'' then (if str_isdigit ds then Some (int (int_of_digits ds)) else None)
                    else (if str_isdigit t then Some (int (int_of_digits t)) else None)))"

definition parse_number :: "bool \<Rightarrow> string \<Rightarrow> py_error + decimal" where
  "parse_number neg u =
     (let intpart = takeWhile is_digit u;
          r1 = dropWhile is_digit u;
          hasdot = (r1 \<noteq> [] \<and> hd r1 = CHR ''.'');
          fracpart = (if hasdot then takeWhile is_digit (tl r1) else []);
          r2 = (if hasdot then dropWhile is_digit (tl r1) else r1)
      in if intpart = [] \<and> fracpart = [] then Inl InvalidOperation
         else (case parse_exponent r2 of
                 None \<Rightarrow> Inl InvalidOperation
               | Some e \<Rightarrow>
                   Inr (Finite neg (int_of_digits (intpart @ fracpart)) (e - int (length fracpart)))))"

definition Decimal :: "string \<Rightarrow> py_error + decimal" where
  "Decimal v =
     (let s = filter (\<lambda>c. c \<noteq> CHR ''_'') (str_strip v);
          neg = (s \<noteq> [] \<and> hd s = CHR ''-'');
          body = (if s \<noteq> [] \<and> (hd s = CHR ''-'' \<or> hd s = CHR ''+'') then tl s else s);
          u = str_upper body
      in if u = ''INF'' \<or> u = ''INFINITY'' then Inr (Infinity neg)
         else if prefix ''NAN'' u \<and> list_all is_digit (drop 3 u)
           then Inr (NaN neg False (int_of_digits (drop 3 u)))
         else if prefix ''SNAN'' u \<and> list_all is_digit (drop 4 u)
           then Inr (NaN neg True (int_of_digits (drop 4 u)))
         else parse_number neg u)"

section \<open>The ingestion helpers (app/ingest.py)\<close>

text \<open>\<open>_parse_decimal\<close>: the \<open>except\<close> clause catches \<open>InvalidOperation\<close> only, any other
  exception of the constructor would leave the function.\<close>

definition parse_decimal :: "string option \<Rightarrow> py_error + decimal option" where
  "parse_decimal raw =
     (case raw of
        None \<Rightarrow> Inr None
      | Some r \<Rightarrow>
          (let cleaned = str_strip r in
           if cleaned = [] then Inr None
           else (let cleaned = str_replace '','' ''.'' (str_replace '' '' [] cleaned) in
                 case Decimal cleaned of
                   Inr d \<Rightarrow> Inr (Some d)
                 | Inl e \<Rightarrow> if e = InvalidOperation then Inr None else Inl e)))"

text \<open>\<open>_normalize_header\<close>: strip, upper-case, drop spaces, turn underscores into dashes.
  The \<open>lstrip\<close> call between the first two steps removes leading byte-order marks
  (U+FEFF); ASCII text has none, so it is the identity on the strings modelled here.\<close>

definition normalize_header :: "string \<Rightarrow> string" where
  "normalize_header v = str_replace ''_'' ''-'' (str_replace '' '' [] (str_upper (str_strip v)))"

text \<open>\<open>_resolve_column\<close>: one pass over the header, returning at the first name whose
  normal form equals, ends with or starts with the normal form of the target.\<close>

fun resolve_column :: "string list \<Rightarrow> string \<Rightarrow> string option" where
  "resolve_column [] target = None"
| "resolve_column (name # fieldnames) target =
     (let target_norm = normalize_header target;
          normalized = normalize_header name
      in if normalized = target_norm \<or> endswith normalized target_norm
            \<or> startswith normalized target_norm
         then Some name
         else resolve_column fieldnames target)"

text \<open>\<open>_find_month_index\<close>: for each column in header order, the stripped non-empty cells of
  the first 200 data rows; a column with no such cell is passed over, and the first column
  whose cells are all digit strings with a value from 1 to 12 is returned.\<close>

definition sample_values :: "string list list \<Rightarrow> nat \<Rightarrow> string list" where
  "sample_values data_rows idx =
     map (\<lambda>row. str_strip (row ! idx))
       (filter (\<lambda>row. idx < length row \<and> str_strip (row ! idx) \<noteq> []) (take 200 data_rows))"

definition is_month_value :: "string \<Rightarrow> bool" where
  "is_month_value v = (str_isdigit v \<and> 1 \<le> int_of_digits v \<and> int_of_digits v \<le> 12)"

definition is_month_column :: "string list list \<Rightarrow> nat \<Rightarrow> bool" where
  "is_month_column data_rows idx =
     (sample_values data_rows idx \<noteq> [] \<and> list_all is_month_value (sample_values data_rows idx))"

definition find_month_index :: "string list list \<Rightarrow> string list \<Rightarrow> nat option" where
  "find_month_index data_rows header = find (is_month_column data_rows) [0..<length header]"

subsection \<open>Rows of the CSV file\<close>

definition REQUIRED_COLUMNS :: "(string \<times> string) list" where
  "REQUIRED_COLUMNS =
     [(''C-TI-0'', ''period_key''), (''C-NACEIDX-0'', ''nace_key''), (''F-UIDXNOM'', ''uidxnom''),
      (''F-UIDXREAL'', ''uidxreal''), (''F-BESCHIDX'', ''beschidx'')]"

definition OPTIONAL_COLUMNS :: "(string \<times> string) list" where
  "OPTIONAL_COLUMNS = [(''F-UIDXNSB'', ''uidxnsb''), (''F-UIDXRSB'', ''uidxrsb'')]"

definition METRIC_COLUMNS :: "(string \<times> string) list" where
  "METRIC_COLUMNS =
     [(''uidxnom'', ''uidxnom''), (''uidxreal'', ''uidxreal''), (''beschidx'', ''beschidx''),
      (''uidxnsb'', ''uidxnsb''), (''uidxrsb'', ''uidxrsb'')]"

text \<open>A dictionary is an association list in insertion order; \<open>d[k]\<close> raises \<open>KeyError\<close> on
  a missing key and \<open>d.get(k)\<close> gives \<open>None\<close>.\<close>

record ParsedRow =
  period_key :: string
  nace_key :: string
  vals :: "(string \<times> decimal option) list"

definition dict_item :: "('k \<times> 'v) list \<Rightarrow> 'k \<Rightarrow> py_error + 'v" where
  "dict_item d k = (case map_of d k of None \<Rightarrow> Inl KeyError | Some v \<Rightarrow> Inr v)"

definition dict_get :: "('k \<times> 'v option) list \<Rightarrow> 'k \<Rightarrow> 'v option" where
  "dict_get d k = (case map_of d k of None \<Rightarrow> None | Some v \<Rightarrow> v)"

fun map_err :: "('a \<Rightarrow> 'e + 'b) \<Rightarrow> 'a list \<Rightarrow> 'e + 'b list" where
  "map_err f [] = Inr []"
| "map_err f (x # xs) =
     bind_err (f x) (\<lambda>y. bind_err (map_err f xs) (\<lambda>ys. Inr (y # ys)))"

text \<open>\<open>header.index(name)\<close>, called on a name the resolver took from the header.\<close>

definition list_index :: "'a list \<Rightarrow> 'a \<Rightarrow> nat" where
  "list_index xs x = length (takeWhile (\<lambda>y. y \<noteq> x) xs)"

text \<open>The loops that fill \<open>required_map\<close> and \<open>optional_map\<close>: a column is entered when the
  resolver finds a non-empty header name for it.\<close>

definition resolve_columns :: "(string \<times> string) list \<Rightarrow> string list \<Rightarrow> (string \<times> nat) list" where
  "resolve_columns columns header =
     fold (\<lambda>(column, metric) m.
             case resolve_column header column of
               None \<Rightarrow> m
             | Some resolved \<Rightarrow>
                 if resolved \<noteq> [] then AList.update column (list_index header resolved) m else m)
       columns []"

text \<open>The fallback for the period and the category column: the first column with a cell,
  among the first 200 data rows, that starts with the sentinel.\<close>

definition sniff_column :: "string \<Rightarrow> string list list \<Rightarrow> string list \<Rightarrow> nat option" where
  "sniff_column sentinel data_rows header =
     find (\<lambda>idx. list_ex (\<lambda>row. idx < length row \<and> startswith (str_strip (row ! idx)) sentinel)
                    (take 200 data_rows))
       [0..<length header]"

definition sniff_into ::
  "string \<Rightarrow> string \<Rightarrow> string list list \<Rightarrow> string list \<Rightarrow> (string \<times> nat) list \<Rightarrow> (string \<times> nat) list" where
  "sniff_into column sentinel data_rows header required_map =
     (if map_of required_map column \<noteq> None then required_map
      else (case sniff_column sentinel data_rows header of
              None \<Rightarrow> required_map
            | Some idx \<Rightarrow> AList.update column idx required_map))"

definition cell :: "string list \<Rightarrow> nat \<Rightarrow> string option" where
  "cell row idx = (if idx < length row then Some (row ! idx) else None)"

text \<open>The month heuristic of the row loop: a stripped period key of four digits gets the
  month cell appended, formatted \<open>:02d\<close>, when a month column was found and the cell (not
  stripped) is a non-empty digit string.\<close>

definition with_month :: "nat option \<Rightarrow> string list \<Rightarrow> string \<Rightarrow> string" where
  "with_month month_idx row pk =
     (case month_idx of
        None \<Rightarrow> pk
      | Some mi \<Rightarrow>
          if fullmatch_digits 4 pk then
            (let month_value = (if mi < length row then row ! mi else [])
             in if month_value \<noteq> [] \<and> str_isdigit month_value
                then pk @ format_02d (int_of_digits month_value)
                else pk)
          else pk)"

text \<open>One pass of the row loop; \<open>None\<close> is the \<open>continue\<close> on a missing or empty period or
  category cell. The values dictionary gets one entry per required column, those of the
  two key columns included, then one per optional column.\<close>

definition parse_row ::
  "(string \<times> nat) list \<Rightarrow> (string \<times> nat) list \<Rightarrow> nat option \<Rightarrow> string list
     \<Rightarrow> py_error + ParsedRow option" where
  "parse_row required_map optional_map month_idx row =
     bind_err (dict_item required_map ''C-TI-0'') (\<lambda>period_idx.
     bind_err (dict_item required_map ''C-NACEIDX-0'') (\<lambda>nace_idx.
       case (cell row period_idx, cell row nace_idx) of
         (Some pk, Some nk) \<Rightarrow>
           if pk = [] \<or> nk = [] then Inr None
           else
             bind_err (map_err (\<lambda>(csv_col, metric).
                         bind_err (dict_item required_map csv_col) (\<lambda>col_idx.
                         bind_err (parse_decimal (cell row col_idx)) (\<lambda>v. Inr (metric, v))))
                       REQUIRED_COLUMNS) (\<lambda>required_values.
             bind_err (map_err (\<lambda>(csv_col, metric).
                         bind_err (parse_decimal
                                     (case map_of optional_map csv_col of
                                        None \<Rightarrow> None
                                      | Some col_idx \<Rightarrow> cell row col_idx)) (\<lambda>v. Inr (metric, v)))
                       OPTIONAL_COLUMNS) (\<lambda>optional_values.
               Inr (Some \<lparr>period_key = with_month month_idx row (str_strip pk),
                          nace_key = nk,
                          vals = required_values @ optional_values\<rparr>)))
       | _ \<Rightarrow> Inr None))"

text \<open>\<open>_parse_csv_rows\<close>, from the rows that \<open>csv.reader\<close> returns for the text (the header
  row first): detecting the dialect and splitting the text into cells are the csv
  module's work and are not modelled. A required column that neither the resolver nor the
  sniffing finds raises \<open>ValueError\<close>.\<close>

definition parse_csv_rows :: "string list list \<Rightarrow> py_error + ParsedRow list" where
  "parse_csv_rows rows_raw =
     (case rows_raw of
        [] \<Rightarrow> Inr []
      | header # data_rows \<Rightarrow>
          (let required_map = resolve_columns REQUIRED_COLUMNS header;
               required_map = sniff_into ''C-TI-0'' ''TIIDX-'' data_rows header required_map;
               required_map = sniff_into ''C-NACEIDX-0'' ''NACEIDX-'' data_rows header required_map;
               missing = filter (\<lambda>col. map_of required_map col = None) (map fst REQUIRED_COLUMNS)
           in if missing \<noteq> [] then Inl ValueError
              else (let optional_map = resolve_columns OPTIONAL_COLUMNS header;
                        month_idx = find_month_index data_rows header
                    in bind_err (map_err (parse_row required_map optional_map month_idx) data_rows)
                         (\<lambda>rs. Inr (concat (map (\<lambda>r. case r of None \<Rightarrow> [] | Some x \<Rightarrow> [x]) rs))))))"

subsection \<open>Period keys and dates\<close>

datatype date = Date (year: nat) (month: nat) (day: nat)

definition date_key :: "date \<Rightarrow> nat \<times> nat \<times> nat" where
  "date_key d = (year d, month d, day d)"

text \<open>
  \<open>datetime.strptime(s, "%Y%m")\<close> and \<open>datetime.strptime(s, "%Y")\<close>, followed by
  \<open>.date().replace(day=1)\<close>. The year directive takes four digits; the month directive
  takes \<open>1[0-2]\<close>, else \<open>0[1-9]\<close>, else one digit \<open>[1-9]\<close>; text left over, a month that
  does not match and the year 0 (below \<open>date.min\<close>) raise \<open>ValueError\<close>.
\<close>

definition match_month :: "string \<Rightarrow> (nat \<times> string) option" where
  "match_month r =
     (case r of
        [] \<Rightarrow> None
      | a # t \<Rightarrow>
          if a = CHR ''1'' \<and> t \<noteq> [] \<and> hd t \<in> set ''012'' then Some (10 + digit_val (hd t), tl t)
          else if a = CHR ''0'' \<and> t \<noteq> [] \<and> hd t \<in> set ''123456789'' then Some (digit_val (hd t), tl t)
          else if a \<in> set ''123456789'' then Some (digit_val a, t)
          else None)"

definition strptime_Y :: "string \<Rightarrow> (nat \<times> string) option" where
  "strptime_Y s =
     (if 4 \<le> length s \<and> list_all is_digit (take 4 s) then Some (int_of_digits (take 4 s), drop 4 s)
      else None)"

definition strptime_year_month :: "string \<Rightarrow> py_error + date" where
  "strptime_year_month s =
     (case strptime_Y s of
        None \<Rightarrow> Inl ValueError
      | Some (y, r) \<Rightarrow>
          (case match_month r of
             None \<Rightarrow> Inl ValueError
           | Some (m, rest) \<Rightarrow>
               if rest \<noteq> [] \<or> y = 0 then Inl ValueError else Inr (Date y m 1)))"

definition strptime_year :: "string \<Rightarrow> py_error + date" where
  "strptime_year s =
     (case strptime_Y s of
        None \<Rightarrow> Inl ValueError
      | Some (y, rest) \<Rightarrow>
          if rest \<noteq> [] \<or> y = 0 then Inl ValueError else Inr (Date y 1 1))"

text \<open>\<open>_period_to_date\<close>: with a dash in the stripped key, the last part is taken when it
  has six characters, else the first two parts joined when the last has two characters
  and the first four, else the last part when it has four characters. Six digits are then
  read as year and month, four digits as a year; anything else is \<open>None\<close>.\<close>

definition dash_candidate :: "string \<Rightarrow> string" where
  "dash_candidate cleaned =
     (if CHR ''-'' \<in> set cleaned then
        (let parts = str_split CHR ''-'' cleaned
         in if length (last parts) = 6 then last parts
            else if length (last parts) = 2 \<and> length (hd parts) = 4 then hd parts @ parts ! 1
            else if length (last parts) = 4 then last parts
            else cleaned)
      else cleaned)"

definition period_to_date :: "string \<Rightarrow> py_error + date option" where
  "period_to_date pk =
     (let cleaned = dash_candidate (str_strip pk)
      in if fullmatch_digits 6 cleaned then bind_err (strptime_year_month cleaned) (\<lambda>d. Inr (Some d))
         else if fullmatch_digits 4 cleaned then bind_err (strptime_year cleaned) (\<lambda>d. Inr (Some d))
         else Inr None)"

section \<open>The store and the ingest orchestrator\<close>

text \<open>
  The two tables, each a list of rows under its uniqueness key: the raw staging table
  keyed by (period_key, nace_key), the mart keyed by (period_date, nace_code, metric).
  A row holds its columns and the ingestion timestamp.
\<close>

type_synonym timestamp = nat

type_synonym raw_values =
  "decimal option \<times> decimal option \<times> decimal option \<times> decimal option \<times> decimal option"

type_synonym raw_row = "(string \<times> string) \<times> (raw_values \<times> timestamp)"

type_synonym mart_row = "(date \<times> string \<times> string) \<times> (decimal \<times> timestamp)"

record database =
  raw_table :: "raw_row list"
  mart_table :: "mart_row list"

text \<open>
  \<open>INSERT ... VALUES ... ON CONFLICT (key) DO UPDATE SET ... = EXCLUDED...\<close>: each row is
  inserted, or overwrites the columns of the stored row with its key. PostgreSQL refuses a
  statement whose rows hit one key twice (cardinality violation), and \<open>execute_values\<close>
  sends the rows in statements of 100 (its default page size).
\<close>

definition upsert_statement :: "('k \<times> 'v) list \<Rightarrow> ('k \<times> 'v) list \<Rightarrow> py_error + ('k \<times> 'v) list" where
  "upsert_statement page table =
     (if distinct (map fst page) then Inr (fold (\<lambda>(k, v). AList.update k v) page table)
      else Inl CardinalityViolation)"

fun execute_values :: "('k \<times> 'v) list \<Rightarrow> ('k \<times> 'v) list \<Rightarrow> py_error + ('k \<times> 'v) list" where
  "execute_values [] table = Inr table"
| "execute_values (r # rs) table =
     bind_err (upsert_statement (r # take 99 rs) table) (execute_values (drop 99 rs))"

definition raw_rows_of :: "timestamp \<Rightarrow> ParsedRow list \<Rightarrow> raw_row list" where
  "raw_rows_of ingested_at parsed_rows =
     map (\<lambda>row. ((period_key row, nace_key row),
                  ((dict_get (vals row) ''uidxnom'', dict_get (vals row) ''uidxreal'',
                    dict_get (vals row) ''beschidx'', dict_get (vals row) ''uidxnsb'',
                    dict_get (vals row) ''uidxrsb''), ingested_at)))
       parsed_rows"

text \<open>The mart rows of one parsed row: none when the period has no date, else one per
  metric of \<open>METRIC_COLUMNS\<close> whose value is not \<open>None\<close>.\<close>

definition unpivot :: "date \<Rightarrow> timestamp \<Rightarrow> ParsedRow \<Rightarrow> mart_row list" where
  "unpivot period_date ingested_at row =
     (let nace_code = str_replace ''NACEIDX-'' [] (nace_key row)
      in concat (map (\<lambda>(metric_key, metric_col).
                        case dict_get (vals row) metric_col of
                          None \<Rightarrow> []
                        | Some v \<Rightarrow> [((period_date, nace_code, metric_key), (v, ingested_at))])
                   METRIC_COLUMNS))"

definition mart_rows_of_row :: "timestamp \<Rightarrow> ParsedRow \<Rightarrow> py_error + mart_row list" where
  "mart_rows_of_row ingested_at row =
     bind_err (period_to_date (period_key row)) (\<lambda>pd.
       case pd of
         None \<Rightarrow> Inr []
       | Some period_date \<Rightarrow> Inr (unpivot period_date ingested_at row))"

definition mart_rows_of :: "timestamp \<Rightarrow> ParsedRow list \<Rightarrow> py_error + mart_row list" where
  "mart_rows_of ingested_at parsed_rows =
     bind_err (map_err (mart_rows_of_row ingested_at) parsed_rows) (\<lambda>rs. Inr (concat rs))"

record summary =
  rows_loaded :: nat
  distinct_nace :: nat
  min_date :: "date option"
  max_date :: "date option"
  source_mode :: string

definition valid_dates :: "ParsedRow list \<Rightarrow> py_error + date list" where
  "valid_dates parsed_rows =
     bind_err (map_err (\<lambda>row. period_to_date (period_key row)) parsed_rows)
       (\<lambda>ds. Inr (concat (map (\<lambda>d. case d of None \<Rightarrow> [] | Some x \<Rightarrow> [x]) ds)))"

definition summarise :: "string \<Rightarrow> ParsedRow list \<Rightarrow> date list \<Rightarrow> summary" where
  "summarise mode parsed_rows ds =
     \<lparr>rows_loaded = length parsed_rows,
      distinct_nace = card (set (map nace_key parsed_rows)),
      min_date = (if ds = [] then None else Some (hd (sort_key date_key ds))),
      max_date = (if ds = [] then None else Some (last (sort_key date_key ds))),
      source_mode = mode\<rparr>"

text \<open>
  \<open>ingest\<close>, from the rows the csv reader gives for the loaded text and the timestamp of
  the run. Both upserts run in one transaction (\<open>with get_conn() as conn\<close>): an exception
  rolls it back, so the result is either the exception, with the store as it was, or the
  summary and the new store. No parsed rows: the store is not touched.
\<close>

definition ingest ::
  "string \<Rightarrow> string list list \<Rightarrow> timestamp \<Rightarrow> database \<Rightarrow> py_error + (summary \<times> database)" where
  "ingest mode rows_raw ingested_at db =
     bind_err (parse_csv_rows rows_raw) (\<lambda>parsed_rows.
       if parsed_rows = [] then
         Inr (\<lparr>rows_loaded = 0, distinct_nace = 0, min_date = None, max_date = None,
               source_mode = mode\<rparr>, db)
       else
         bind_err (execute_values (raw_rows_of ingested_at parsed_rows) (raw_table db)) (\<lambda>raw'.
         bind_err (mart_rows_of ingested_at parsed_rows) (\<lambda>mart_rows.
         bind_err (execute_values mart_rows (mart_table db)) (\<lambda>mart'.
         bind_err (valid_dates parsed_rows) (\<lambda>ds.
           Inr (summarise mode parsed_rows ds, \<lparr>raw_table = raw', mart_table = mart'\<rparr>))))))"

text \<open>The store after a call of \<open>ingest\<close>, whether it returned or raised.\<close>

definition store_after :: "string \<Rightarrow> string list list \<Rightarrow> timestamp \<Rightarrow> database \<Rightarrow> database" where
  "store_after mode rows_raw ingested_at db =
     (case ingest mode rows_raw ingested_at db of Inl e \<Rightarrow> db | Inr (s, db') \<Rightarrow> db')"

text \<open>The content of a table without the timestamps: its keys and their values.\<close>

definition table_content :: "('k \<times> ('v \<times> timestamp)) list \<Rightarrow> 'k \<Rightarrow> 'v option" where
  "table_content table = map_option fst \<circ> map_of table"

section \<open>The query API (app/main.py)\<close>

text \<open>
  The endpoints turn the stored decimals into Python floats and compute with them. The
  float operations are parameters of the model: the conversions from a decimal and from
  an integer, subtraction, division, multiplication and the comparison \<open>==\<close>.
\<close>

record 'f float_ops =
  float_of_decimal :: "decimal \<Rightarrow> 'f"
  float_of_int :: "int \<Rightarrow> 'f"
  fsub :: "'f \<Rightarrow> 'f \<Rightarrow> 'f"
  fdiv :: "'f \<Rightarrow> 'f \<Rightarrow> 'f"
  fmul :: "'f \<Rightarrow> 'f \<Rightarrow> 'f"
  feq :: "'f \<Rightarrow> 'f \<Rightarrow> bool"

definition ALLOWED_METRICS :: "string set" where
  "ALLOWED_METRICS = {''uidxnom'', ''uidxreal'', ''beschidx'', ''uidxnsb'', ''uidxrsb''}"

definition validate_metric :: "string \<Rightarrow> py_error + string" where
  "validate_metric metric =
     (if metric \<notin> ALLOWED_METRICS then Inl (HTTPException 400) else Inr metric)"

text \<open>\<open>ORDER BY period_date DESC\<close> over the selected rows.\<close>

definition order_by_date_desc :: "mart_row list \<Rightarrow> mart_row list" where
  "order_by_date_desc rows = rev (sort_key (\<lambda>r. date_key (fst (fst r))) rows)"

definition row_date :: "mart_row \<Rightarrow> date" where
  "row_date r = fst (fst r)"

definition row_metric :: "mart_row \<Rightarrow> string" where
  "row_metric r = snd (snd (fst r))"

definition row_value :: "mart_row \<Rightarrow> decimal" where
  "row_value r = fst (snd r)"

text \<open>The query of \<open>get_latest\<close>: the rows of the category and metric, newest first, at
  most two.\<close>

definition select_latest :: "mart_row list \<Rightarrow> string \<Rightarrow> string \<Rightarrow> mart_row list" where
  "select_latest mart nace metric =
     take 2 (order_by_date_desc (filter (\<lambda>r. fst (snd (fst r)) = nace \<and> row_metric r = metric) mart))"

record 'f latest_response =
  lr_nace :: string
  lr_metric :: string
  latest_date :: date
  latest_value :: 'f
  previous_value :: "'f option"
  delta :: "'f option"
  delta_percent :: "'f option"

definition get_latest ::
  "'f float_ops \<Rightarrow> mart_row list \<Rightarrow> string \<Rightarrow> string \<Rightarrow> py_error + 'f latest_response" where
  "get_latest ops mart nace metric0 =
     bind_err (validate_metric metric0) (\<lambda>metric.
       let rows = select_latest mart nace metric
       in case rows of
            [] \<Rightarrow> Inl (HTTPException 404)
          | latest # rest \<Rightarrow>
              (let previous = (if 1 < length rows then Some (rows ! 1) else None);
                   latest_v = float_of_decimal ops (row_value latest);
                   previous_v = map_option (\<lambda>p. float_of_decimal ops (row_value p)) previous;
                   dlt = map_option (\<lambda>pv. fsub ops latest_v pv) previous_v;
                   pct = (case (previous_v, dlt) of
                            (Some pv, Some d) \<Rightarrow>
                              if feq ops pv (float_of_int ops 0) then None
                              else Some (fmul ops (fdiv ops d pv) (float_of_int ops 100))
                          | _ \<Rightarrow> None)
               in Inr \<lparr>lr_nace = nace, lr_metric = metric, latest_date = row_date latest,
                       latest_value = latest_v, previous_value = previous_v, delta = dlt,
                       delta_percent = pct\<rparr>))"

text \<open>The query of \<open>nominal_vs_real\<close>: the rows of the category for the two metrics, newest
  first. The dictionary comprehension over the rows of the newest date keeps, for a metric
  met twice, the later row.\<close>

definition select_nominal_real :: "mart_row list \<Rightarrow> string \<Rightarrow> mart_row list" where
  "select_nominal_real mart nace =
     order_by_date_desc
       (filter (\<lambda>r. fst (snd (fst r)) = nace \<and> row_metric r \<in> {''uidxnom'', ''uidxreal''}) mart)"

record 'f nominal_vs_real_response =
  nr_nace :: string
  nr_period_date :: date
  nr_uidxnom :: "'f option"
  nr_uidxreal :: "'f option"
  gap :: "'f option"

definition nominal_vs_real ::
  "'f float_ops \<Rightarrow> mart_row list \<Rightarrow> string \<Rightarrow> py_error + 'f nominal_vs_real_response" where
  "nominal_vs_real ops mart nace =
     (let rows = select_nominal_real mart nace
      in case rows of
           [] \<Rightarrow> Inl (HTTPException 404)
         | first # rest \<Rightarrow>
             (let latest_d = row_date first;
                  latest_rows = filter (\<lambda>r. row_date r = latest_d) rows;
                  metric_map = map_of (rev (map (\<lambda>r. (row_metric r, float_of_decimal ops (row_value r)))
                                               latest_rows));
                  uidxnom = metric_map ''uidxnom'';
                  uidxreal = metric_map ''uidxreal'';
                  g = (case (uidxnom, uidxreal) of
                         (Some a, Some b) \<Rightarrow> Some (fsub ops a b)
                       | _ \<Rightarrow> None)
              in Inr \<lparr>nr_nace = nace, nr_period_date = latest_d, nr_uidxnom = uidxnom,
                      nr_uidxreal = uidxreal, gap = g\<rparr>))"

text \<open>Exact arithmetic on the finite decimals, to run the endpoints on examples.\<close>

definition exact_ops :: "real float_ops" where
  "exact_ops =
     \<lparr>float_of_decimal = (\<lambda>d. case decimal_value d of None \<Rightarrow> 0 | Some x \<Rightarrow> x),
      float_of_int = real_of_int,
      fsub = (\<lambda>a b. a - b),
      fdiv = (\<lambda>a b. a / b),
      fmul = (\<lambda>a b. a * b),
      feq = (\<lambda>a b. a = b)\<rparr>"

section \<open>Predicates of the statements\<close>

text \<open>The three relations of the column resolver between a header name and a target,
  both in normal form.\<close>

definition column_matches :: "string \<Rightarrow> string \<Rightarrow> bool" where
  "column_matches target name =
     (normalize_header name = normalize_header target
      \<or> endswith (normalize_header name) (normalize_header target)
      \<or> startswith (normalize_header name) (normalize_header target))"

text \<open>The mart rows of a category and metric, in table order.\<close>

definition matching :: "mart_row list \<Rightarrow> string \<Rightarrow> string \<Rightarrow> mart_row list" where
  "matching mart nace metric = filter (\<lambda>r. fst (snd (fst r)) = nace \<and> row_metric r = metric) mart"

text \<open>For the two bulk upserts: the pages of 100 keys each hold no key twice; the rows
  with their timestamp replaced; the rows upserted one after the other.\<close>

fun pages_ok :: "'k list \<Rightarrow> bool" where
  "pages_ok [] = True"
| "pages_ok (k # ks) = (distinct (k # take 99 ks) \<and> pages_ok (drop 99 ks))"

definition stamp :: "timestamp \<Rightarrow> ('k \<times> ('v \<times> timestamp)) list \<Rightarrow> ('k \<times> ('v \<times> timestamp)) list" where
  "stamp t rows = map (\<lambda>(k, (v, u)). (k, (v, t))) rows"

definition upsert_all :: "('k \<times> 'v) list \<Rightarrow> ('k \<times> 'v) list \<Rightarrow> ('k \<times> 'v) list" where
  "upsert_all rows table = fold (\<lambda>(k, v). AList.update k v) rows table"

section \<open>Fixtures\<close>

text \<open>A header that names the five required columns as the source publishes them, and
  the column map it resolves to; the store before the first ingestion.\<close>

definition standard_header :: "string list" where
  "standard_header = [''C-TI-0'', ''C-NACEIDX-0'', ''F-UIDXNOM'', ''F-UIDXREAL'', ''F-BESCHIDX'']"

definition standard_map :: "(string \<times> nat) list" where
  "standard_map =
     [(''C-TI-0'', 0), (''C-NACEIDX-0'', 1), (''F-UIDXNOM'', 2), (''F-UIDXREAL'', 3),
      (''F-BESCHIDX'', 4)]"

definition empty_store :: database where
  "empty_store = \<lparr>raw_table = [], mart_table = []\<rparr>"

text \<open>A parsed row with three of the five metrics present.\<close>

definition three_of_five :: ParsedRow where
  "three_of_five =
     \<lparr>period_key = ''202301'', nace_key = ''NACEIDX-47'',
      vals = [(''period_key'', Some (Finite False 202301 0)), (''nace_key'', None),
              (''uidxnom'', Some (Finite False 1015 (- 1))), (''uidxreal'', None),
              (''beschidx'', Some (Finite False 990 (- 1))), (''uidxnsb'', None),
              (''uidxrsb'', Some (Finite False 7 0))]\<rparr>"

text \<open>A mart with the nominal index at two dates and the real index at the older one.\<close>

definition mart_2023 :: "mart_row list" where
  "mart_2023 =
     [((Date 2023 2 1, ''47'', ''uidxnom''), (Finite False 1015 (- 1), 7)),
      ((Date 2023 1 1, ''47'', ''uidxnom''), (Finite False 1000 (- 1), 7)),
      ((Date 2023 1 1, ''47'', ''uidxreal''), (Finite False 990 (- 1), 7))]"

section \<open>Evaluation on concrete inputs\<close>

lemmas str_defs = str_strip_def str_lstrip_def str_rstrip_def is_space_def is_digit_def
  str_replace_def str_upper_def upper_char_def str_isdigit_def digit_val_def int_of_digits_def
  fullmatch_digits_def startswith_def endswith_def

lemmas dec_defs = parse_decimal_def Decimal_def parse_number_def parse_exponent_def Let_def

lemmas csv_defs = resolve_columns_def normalize_header_def REQUIRED_COLUMNS_def
  OPTIONAL_COLUMNS_def list_index_def

lemmas month_defs = find_month_index_def is_month_column_def sample_values_def is_month_value_def

lemmas row_defs = parse_row_def dict_item_def cell_def with_month_def REQUIRED_COLUMNS_def
  OPTIONAL_COLUMNS_def bind_err_def

lemmas date_defs = period_to_date_def dash_candidate_def strptime_year_month_def strptime_year_def
  strptime_Y_def match_month_def bind_err_def

lemmas ingest_defs = raw_rows_of_def mart_rows_of_def mart_rows_of_row_def unpivot_def
  METRIC_COLUMNS_def valid_dates_def upsert_statement_def dict_get_def bind_err_def Let_def

lemma resolve_required_standard: "resolve_columns REQUIRED_COLUMNS standard_header = standard_map"
  by (simp add: standard_header_def standard_map_def csv_defs str_defs suffix_to_prefix)

lemma resolve_optional_standard: "resolve_columns OPTIONAL_COLUMNS standard_header = []"
  by (simp add: standard_header_def csv_defs str_defs suffix_to_prefix)

lemma parse_csv_rows_standard:
  "parse_csv_rows (standard_header # data_rows) =
     bind_err (map_err (parse_row standard_map [] (find_month_index data_rows standard_header)) data_rows)
       (\<lambda>rs. Inr (concat (map (\<lambda>r. case r of None \<Rightarrow> [] | Some x \<Rightarrow> [x]) rs)))"
  unfolding parse_csv_rows_def list.case resolve_required_standard resolve_optional_standard Let_def
  by (simp add: sniff_into_def REQUIRED_COLUMNS_def standard_map_def)

lemma period_202313: "period_to_date ''202313'' = Inl ValueError"
  by (simp add: date_defs str_defs)

lemma period_202301: "period_to_date ''202301'' = Inr (Some (Date 2023 1 1))"
  by (simp add: date_defs str_defs)

lemma nace_47: "str_replace ''NACEIDX-'' [] ''NACEIDX-47'' = ''47''"
  by (simp add: str_replace_def)

section \<open>The decimal parser\<close>

lemma parse_number_raises_only_InvalidOperation:
  "parse_number neg u = Inl e \<Longrightarrow> e = InvalidOperation"
  unfolding parse_number_def Let_def
  by (simp split: if_splits option.splits)

lemma Decimal_raises_only_InvalidOperation: "Decimal v = Inl e \<Longrightarrow> e = InvalidOperation"
  unfolding Decimal_def Let_def
  by (simp split: if_splits add: parse_number_raises_only_InvalidOperation)

lemma parse_decimal_returns: "\<exists>r. parse_decimal raw = Inr r"
proof (cases raw)
  case None
  then show ?thesis by (simp add: parse_decimal_def)
next
  case (Some r)
  show ?thesis
  proof (cases "Decimal (str_replace '','' ''.'' (str_replace '' '' [] (str_strip r)))")
    case (Inl e)
    then have "e = InvalidOperation" by (rule Decimal_raises_only_InvalidOperation)
    with Inl Some show ?thesis by (simp add: parse_decimal_def Let_def)
  next
    case (Inr d)
    with Some show ?thesis by (simp add: parse_decimal_def Let_def)
  qed
qed

lemma strip_all_space: "list_all is_space s \<Longrightarrow> str_strip s = []"
proof -
  assume "list_all is_space s"
  then have "str_lstrip s = []" by (simp add: str_lstrip_def list_all_iff)
  then show ?thesis by (simp add: str_strip_def str_rstrip_def)
qed

lemma parse_decimal_blank: "list_all is_space s \<Longrightarrow> parse_decimal (Some s) = Inr None"
  by (simp add: parse_decimal_def strip_all_space)

lemma parse_decimal_invalid:
  "Decimal (str_replace '','' ''.'' (str_replace '' '' [] (str_strip s))) = Inl InvalidOperation
   \<Longrightarrow> parse_decimal (Some s) = Inr None"
  by (simp add: parse_decimal_def Let_def)

text \<open>
  C5. The decimal parser returns for every input (it never raises). It returns \<open>None\<close> on
  \<open>None\<close>, on an empty or whitespace-only string, and on every string that the decimal
  constructor rejects after the cleaning, such as "abc". "1234,56" parses to 1234.56 and
  "1,234" to the number 1.234.
\<close>

theorem parse_decimal_never_raises:
  "(\<forall>raw. \<exists>r. parse_decimal raw = Inr r)
   \<and> parse_decimal None = Inr None
   \<and> (\<forall>s. list_all is_space s \<longrightarrow> parse_decimal (Some s) = Inr None)
   \<and> (\<forall>s. Decimal (str_replace '','' ''.'' (str_replace '' '' [] (str_strip s))) = Inl InvalidOperation
          \<longrightarrow> parse_decimal (Some s) = Inr None)
   \<and> parse_decimal (Some ''abc'') = Inr None
   \<and> parse_decimal (Some ''1234,56'') = Inr (Some (Finite False 123456 (- 2)))
   \<and> decimal_value (Finite False 123456 (- 2)) = Some 1234.56
   \<and> parse_decimal (Some ''1,234'') = Inr (Some (Finite False 1234 (- 3)))
   \<and> decimal_value (Finite False 1234 (- 3)) = Some 1.234"
proof -
  have a: "parse_decimal None = Inr None" by (simp add: parse_decimal_def)
  have b: "parse_decimal (Some ''abc'') = Inr None" by (simp add: dec_defs str_defs)
  have c: "parse_decimal (Some ''1234,56'') = Inr (Some (Finite False 123456 (- 2)))"
    by (simp add: dec_defs str_defs)
  have d: "decimal_value (Finite False 123456 (- 2)) = Some 1234.56"
    by (simp add: divide_simps)
  have e: "parse_decimal (Some ''1,234'') = Inr (Some (Finite False 1234 (- 3)))"
    by (simp add: dec_defs str_defs)
  have f: "decimal_value (Finite False 1234 (- 3)) = Some 1.234"
    by (simp add: divide_simps)
  show ?thesis
    by (intro conjI allI impI parse_decimal_returns a b c d e f)
       (erule parse_decimal_blank parse_decimal_invalid)+
qed

theorem parse_decimal_never_raises_witness:
  "list_all is_space ''  '' \<and> parse_decimal (Some ''  '') = Inr None
   \<and> Decimal (str_replace '','' ''.'' (str_replace '' '' [] (str_strip ''1,2,3''))) = Inl InvalidOperation
   \<and> parse_decimal (Some ''1,2,3'') = Inr None"
proof -
  have a: "list_all is_space ''  ''" by (simp add: str_defs)
  have b: "Decimal (str_replace '','' ''.'' (str_replace '' '' [] (str_strip ''1,2,3''))) = Inl InvalidOperation"
    by (simp add: dec_defs str_defs)
  have c: "parse_decimal (Some ''  '') = Inr None"
    using parse_decimal_never_raises a by blast
  have d: "parse_decimal (Some ''1,2,3'') = Inr None"
    using parse_decimal_never_raises b by blast
  from a b c d show ?thesis by (intro conjI)
qed

section \<open>Period keys that raise\<close>

lemma no_month_column_202313:
  "find_month_index [[''202313'', ''NACEIDX-47'', ''101,5'', ''99,0'', ''x'']] standard_header = None"
  by (simp add: standard_header_def month_defs str_defs upt_rec)

lemma parse_row_202313:
  "parse_row standard_map [] None [''202313'', ''NACEIDX-47'', ''101,5'', ''99,0'', ''x'']
   = Inr (Some \<lparr>period_key = ''202313'', nace_key = ''NACEIDX-47'',
                  vals = [(''period_key'', Some (Finite False 202313 0)), (''nace_key'', None),
                          (''uidxnom'', Some (Finite False 1015 (- 1))),
                          (''uidxreal'', Some (Finite False 990 (- 1))), (''beschidx'', None),
                          (''uidxnsb'', None), (''uidxrsb'', None)]\<rparr>)"
  by (simp add: standard_map_def row_defs dec_defs str_defs)

text \<open>
  C2. The claim: the normalizer returns a date or unresolved and never raises, so a row
  with a six-digit key whose last two digits are no month is only left out of the mart.
  On the code the key "202313" raises \<open>ValueError\<close> inside the normalizer, and an ingestion
  of a file holding that key raises with it: nothing is stored.
\<close>

theorem period_to_date_raises_on_invalid_month:
  "period_to_date ''202313'' = Inl ValueError
   \<and> ingest ''mock'' [standard_header, [''202313'', ''NACEIDX-47'', ''101,5'', ''99,0'', ''x'']] ts
         empty_store = Inl ValueError
   \<and> store_after ''mock'' [standard_header, [''202313'', ''NACEIDX-47'', ''101,5'', ''99,0'', ''x'']] ts
         empty_store = empty_store"
proof -
  have a: "ingest ''mock'' [standard_header, [''202313'', ''NACEIDX-47'', ''101,5'', ''99,0'', ''x'']] ts
         empty_store = Inl ValueError"
    unfolding ingest_def parse_csv_rows_standard no_month_column_202313 empty_store_def
    by (simp add: parse_row_202313 period_202313 ingest_defs)
  then have b: "store_after ''mock'' [standard_header, [''202313'', ''NACEIDX-47'', ''101,5'', ''99,0'', ''x'']] ts
         empty_store = empty_store"
    by (simp add: store_after_def)
  from period_202313 a b show ?thesis by (intro conjI)
qed

section \<open>Special decimal values\<close>

lemma no_month_column_special:
  "find_month_index [[''202301'', ''NACEIDX-47'', ''nan'', ''Infinity'', ''abc'']] standard_header = None"
  by (simp add: standard_header_def month_defs str_defs upt_rec)

lemma parse_row_special:
  "parse_row standard_map [] None [''202301'', ''NACEIDX-47'', ''nan'', ''Infinity'', ''abc'']
   = Inr (Some \<lparr>period_key = ''202301'', nace_key = ''NACEIDX-47'',
                  vals = [(''period_key'', Some (Finite False 202301 0)), (''nace_key'', None),
                          (''uidxnom'', Some (NaN False False 0)),
                          (''uidxreal'', Some (Infinity False)), (''beschidx'', None),
                          (''uidxnsb'', None), (''uidxrsb'', None)]\<rparr>)"
  by (simp add: standard_map_def row_defs dec_defs str_defs)



section \<open>The column resolver\<close>

lemma resolve_column_find:
  "resolve_column fieldnames target = find (column_matches target) fieldnames"
  by (induction fieldnames) (simp_all add: column_matches_def Let_def)

lemma resolve_column_None:
  "resolve_column fieldnames target = None
     \<longleftrightarrow> (\<forall>name \<in> set fieldnames. \<not> column_matches target name)"
  by (auto simp: resolve_column_find find_None_iff)

lemma resolve_column_Some:
  "resolve_column fieldnames target = Some name \<Longrightarrow>
     \<exists>i < length fieldnames. fieldnames ! i = name \<and> column_matches target name
        \<and> (\<forall>j < i. \<not> column_matches target (fieldnames ! j))"
  by (auto simp: resolve_column_find find_Some_iff)

lemma normalize_exact: "normalize_header ''F-UIDXNOM'' = ''F-UIDXNOM''"
  by (simp add: normalize_header_def str_defs)

lemma normalize_suffixed: "normalize_header ''X_F-UIDXNOM'' = ''X-F-UIDXNOM''"
  by (simp add: normalize_header_def str_defs)

lemma normalize_period: "normalize_header ''period'' = ''PERIOD''"
  by (simp add: normalize_header_def str_defs)

text \<open>
  C1, as the code has it. The resolver returns the first header, in list order, whose
  normal form equals, ends with or starts with the normal form of the target: no header
  before it matches under any of the three relations, and the three relations are not
  ranked against each other. It returns unresolved exactly when no header matches.
\<close>

theorem resolve_column_first_match:
  "(resolve_column fieldnames target = None
      \<longleftrightarrow> (\<forall>name \<in> set fieldnames. \<not> column_matches target name))
   \<and> (\<forall>name. resolve_column fieldnames target = Some name \<longrightarrow>
        (\<exists>i < length fieldnames. fieldnames ! i = name \<and> column_matches target name
           \<and> (\<forall>j < i. \<not> column_matches target (fieldnames ! j))))"
  using resolve_column_None resolve_column_Some by blast

theorem resolve_column_first_match_witness:
  "\<not> column_matches ''F-UIDXNOM'' ''period'' \<and> resolve_column [''period''] ''F-UIDXNOM'' = None"
proof -
  have a: "\<not> column_matches ''F-UIDXNOM'' ''period''"
    by (simp add: column_matches_def normalize_exact normalize_period endswith_def
          startswith_def suffix_to_prefix)
  then have "\<forall>name \<in> set [''period'']. \<not> column_matches ''F-UIDXNOM'' name" by simp
  then have "resolve_column [''period''] ''F-UIDXNOM'' = None"
    using resolve_column_first_match [of "[''period'']" "''F-UIDXNOM''"] by blast
  with a show ?thesis by simp
qed

text \<open>
  C1, as the claim has it, fails: with the headers "X_F-UIDXNOM", "F-UIDXNOM" and the
  target "F-UIDXNOM" the second header equals the target and the first only ends with
  it, and the resolver returns the first.
\<close>

theorem resolve_column_earlier_suffix_match_wins:
  "resolve_column [''X_F-UIDXNOM'', ''F-UIDXNOM''] ''F-UIDXNOM'' = Some ''X_F-UIDXNOM''
   \<and> normalize_header ''F-UIDXNOM'' = ''F-UIDXNOM''
   \<and> normalize_header ''X_F-UIDXNOM'' = ''X-F-UIDXNOM''"
  by (simp add: normalize_exact normalize_suffixed endswith_def startswith_def suffix_to_prefix)

section \<open>Unpivoting a row into mart records\<close>

lemma concat_present:
  "concat (map (\<lambda>(k, c). case f c of None \<Rightarrow> [] | Some v \<Rightarrow> [g k v]) cols)
   = map (\<lambda>(k, c). g k (the (f c))) (filter (\<lambda>(k, c). f c \<noteq> None) cols)"
  by (induction cols) (auto split: option.splits)

lemma unpivot_present:
  "unpivot d ts row =
     map (\<lambda>m. ((d, str_replace ''NACEIDX-'' [] (nace_key row), m), (the (dict_get (vals row) m), ts)))
       (filter (\<lambda>m. dict_get (vals row) m \<noteq> None)
          [''uidxnom'', ''uidxreal'', ''beschidx'', ''uidxnsb'', ''uidxrsb''])"
proof -
  have "unpivot d ts row =
     map (\<lambda>(k, c). ((d, str_replace ''NACEIDX-'' [] (nace_key row), k), (the (dict_get (vals row) c), ts)))
       (filter (\<lambda>(k, c). dict_get (vals row) c \<noteq> None) METRIC_COLUMNS)"
    unfolding unpivot_def Let_def by (rule concat_present)
  also have "\<dots> = map (\<lambda>m. ((d, str_replace ''NACEIDX-'' [] (nace_key row), m), (the (dict_get (vals row) m), ts)))
       (filter (\<lambda>m. dict_get (vals row) m \<noteq> None) (map fst METRIC_COLUMNS))"
    by (simp add: METRIC_COLUMNS_def)
  finally show ?thesis by (simp add: METRIC_COLUMNS_def)
qed

lemma replace_scan_absent: "\<not> sublist old s \<Longrightarrow> replace_scan old new s = s"
proof (induction s)
  case Nil
  then show ?case by simp
next
  case (Cons c cs)
  from Cons.prems have a: "\<not> prefix old (c # cs)"
    using prefix_imp_sublist by blast
  from Cons.prems have b: "\<not> sublist old cs"
    by (meson sublist_Cons_right)
  from a b Cons.IH show ?case by simp
qed

lemma replace_scan_prefix:
  "old \<noteq> [] \<Longrightarrow> \<not> sublist old c \<Longrightarrow> replace_scan old [] (old @ c) = c"
proof -
  assume a: "old \<noteq> []" and b: "\<not> sublist old c"
  then obtain x xs where old: "old = x # xs" by (cases old) auto
  have "replace_scan old [] (old @ c) = replace_scan old [] (drop (length old - 1) (xs @ c))"
    by (simp add: old)
  also have "drop (length old - 1) (xs @ c) = c" by (simp add: old)
  finally show ?thesis using b by (simp add: replace_scan_absent)
qed

text \<open>
  C7, as the code has it. For a parsed row whose period key resolves to a date the mart
  derivation emits one record for each of the five metrics whose value is present, in the
  order of the metric table and no other record; the record carries the resolved date,
  the category key with every occurrence of "NACEIDX-" removed, the metric name and the
  value, so each mart record comes from one metric of one row. A row whose key does not
  resolve emits nothing. A key that has the sentinel as its prefix only loses the prefix;
  a key without the sentinel is kept.
\<close>

theorem unpivot_complete:
  "(\<forall>d. period_to_date (period_key row) = Inr (Some d) \<longrightarrow>
      mart_rows_of_row ts row =
        Inr (map (\<lambda>m. ((d, str_replace ''NACEIDX-'' [] (nace_key row), m),
                        (the (dict_get (vals row) m), ts)))
               (filter (\<lambda>m. dict_get (vals row) m \<noteq> None)
                  [''uidxnom'', ''uidxreal'', ''beschidx'', ''uidxnsb'', ''uidxrsb''])))
   \<and> (period_to_date (period_key row) = Inr None \<longrightarrow> mart_rows_of_row ts row = Inr [])
   \<and> (\<forall>c. \<not> sublist ''NACEIDX-'' c \<longrightarrow>
         str_replace ''NACEIDX-'' [] (''NACEIDX-'' @ c) = c \<and> str_replace ''NACEIDX-'' [] c = c)"
proof (intro conjI allI impI)
  fix d assume "period_to_date (period_key row) = Inr (Some d)"
  then show "mart_rows_of_row ts row =
        Inr (map (\<lambda>m. ((d, str_replace ''NACEIDX-'' [] (nace_key row), m),
                        (the (dict_get (vals row) m), ts)))
               (filter (\<lambda>m. dict_get (vals row) m \<noteq> None)
                  [''uidxnom'', ''uidxreal'', ''beschidx'', ''uidxnsb'', ''uidxrsb'']))"
    by (simp add: mart_rows_of_row_def bind_err_def unpivot_present)
next
  assume "period_to_date (period_key row) = Inr None"
  then show "mart_rows_of_row ts row = Inr []"
    by (simp add: mart_rows_of_row_def bind_err_def)
next
  fix c assume a: "\<not> sublist ''NACEIDX-'' c"
  have "replace_scan ''NACEIDX-'' [] (''NACEIDX-'' @ c) = c"
    using a by (intro replace_scan_prefix) simp_all
  then show "str_replace ''NACEIDX-'' [] (''NACEIDX-'' @ c) = c"
    by (simp add: str_replace_def)
next
  fix c assume a: "\<not> sublist ''NACEIDX-'' c"
  then show "str_replace ''NACEIDX-'' [] c = c"
    by (simp add: str_replace_def replace_scan_absent)
qed

theorem unpivot_complete_witness:
  "period_to_date (period_key three_of_five) = Inr (Some (Date 2023 1 1))
   \<and> mart_rows_of_row 7 three_of_five =
       Inr [((Date 2023 1 1, ''47'', ''uidxnom''), (Finite False 1015 (- 1), 7)),
            ((Date 2023 1 1, ''47'', ''beschidx''), (Finite False 990 (- 1), 7)),
            ((Date 2023 1 1, ''47'', ''uidxrsb''), (Finite False 7 0, 7))]"
proof -
  have a: "period_to_date (period_key three_of_five) = Inr (Some (Date 2023 1 1))"
    by (simp add: three_of_five_def period_202301)
  have "mart_rows_of_row 7 three_of_five =
        Inr (map (\<lambda>m. ((Date 2023 1 1, str_replace ''NACEIDX-'' [] (nace_key three_of_five), m),
                        (the (dict_get (vals three_of_five) m), 7)))
               (filter (\<lambda>m. dict_get (vals three_of_five) m \<noteq> None)
                  [''uidxnom'', ''uidxreal'', ''beschidx'', ''uidxnsb'', ''uidxrsb'']))"
    using unpivot_complete [of three_of_five 7] a by blast
  then have "mart_rows_of_row 7 three_of_five =
       Inr [((Date 2023 1 1, ''47'', ''uidxnom''), (Finite False 1015 (- 1), 7)),
            ((Date 2023 1 1, ''47'', ''beschidx''), (Finite False 990 (- 1), 7)),
            ((Date 2023 1 1, ''47'', ''uidxrsb''), (Finite False 7 0, 7))]"
    by (simp add: three_of_five_def dict_get_def nace_47)
  with a show ?thesis by simp
qed

lemma no_month_column_twice:
  "find_month_index [[''202301'', ''NACEIDX-A-NACEIDX-B'', ''101,5'', ''99,0'', ''x'']] standard_header = None"
  by (simp add: standard_header_def month_defs str_defs upt_rec)

lemma parse_row_twice:
  "parse_row standard_map [] None [''202301'', ''NACEIDX-A-NACEIDX-B'', ''101,5'', ''99,0'', ''x'']
   = Inr (Some \<lparr>period_key = ''202301'', nace_key = ''NACEIDX-A-NACEIDX-B'',
                  vals = [(''period_key'', Some (Finite False 202301 0)), (''nace_key'', None),
                          (''uidxnom'', Some (Finite False 1015 (- 1))),
                          (''uidxreal'', Some (Finite False 990 (- 1))), (''beschidx'', None),
                          (''uidxnsb'', None), (''uidxrsb'', None)]\<rparr>)"
  by (simp add: standard_map_def row_defs dec_defs str_defs)

lemma nace_twice: "str_replace ''NACEIDX-'' [] ''NACEIDX-A-NACEIDX-B'' = ''A-B''"
  by (simp add: str_replace_def)

text \<open>
  C7, as the claim has it, fails on the category: the key "NACEIDX-A-NACEIDX-B" with its
  prefix stripped is "A-NACEIDX-B", and the mart records of its row carry "A-B".
\<close>

theorem unpivot_removes_inner_sentinel:
  "prefix ''NACEIDX-'' ''NACEIDX-A-NACEIDX-B''
   \<and> drop (length ''NACEIDX-'') ''NACEIDX-A-NACEIDX-B'' = ''A-NACEIDX-B''
   \<and> mart_table (store_after ''mock''
         [standard_header, [''202301'', ''NACEIDX-A-NACEIDX-B'', ''101,5'', ''99,0'', ''x'']] 7 empty_store)
       = [((Date 2023 1 1, ''A-B'', ''uidxnom''), (Finite False 1015 (- 1), 7)),
          ((Date 2023 1 1, ''A-B'', ''uidxreal''), (Finite False 990 (- 1), 7))]"
proof -
  have "mart_table (store_after ''mock''
         [standard_header, [''202301'', ''NACEIDX-A-NACEIDX-B'', ''101,5'', ''99,0'', ''x'']] 7 empty_store)
       = [((Date 2023 1 1, ''A-B'', ''uidxnom''), (Finite False 1015 (- 1), 7)),
          ((Date 2023 1 1, ''A-B'', ''uidxreal''), (Finite False 990 (- 1), 7))]"
    unfolding store_after_def ingest_def parse_csv_rows_standard no_month_column_twice
      empty_store_def
    by (simp add: parse_row_twice period_202301 nace_twice ingest_defs)
  then show ?thesis by simp
qed

section \<open>The latest-value endpoint\<close>

lemma order_by_date_desc_set [simp]: "set (order_by_date_desc rows) = set rows"
  by (simp add: order_by_date_desc_def)

lemma order_by_date_desc_length [simp]: "length (order_by_date_desc rows) = length rows"
  by (simp add: order_by_date_desc_def)

lemma order_by_date_desc_sorted:
  "sorted_wrt (\<lambda>a b. date_key (row_date b) \<le> date_key (row_date a)) (order_by_date_desc rows)"
proof -
  have "sorted (map (\<lambda>r. date_key (fst (fst r))) (sort_key (\<lambda>r. date_key (fst (fst r))) rows))"
    by (rule sorted_sort_key)
  then have "sorted_wrt (\<lambda>a b. date_key (fst (fst a)) \<le> date_key (fst (fst b)))
               (sort_key (\<lambda>r. date_key (fst (fst r))) rows)"
    by (simp add: sorted_wrt_map)
  then show ?thesis
    by (simp add: order_by_date_desc_def sorted_wrt_rev row_date_def)
qed

lemma order_by_date_desc_Nil [simp]: "order_by_date_desc rows = [] \<longleftrightarrow> rows = []"
  by (metis length_0_conv order_by_date_desc_length)

lemma order_by_date_desc_hd_max:
  "order_by_date_desc rows = r # rest \<Longrightarrow> x \<in> set rows \<Longrightarrow>
     date_key (row_date x) \<le> date_key (row_date r)"
proof -
  assume a: "order_by_date_desc rows = r # rest" and b: "x \<in> set rows"
  from b have "x \<in> set (order_by_date_desc rows)" by simp
  with a have "x = r \<or> x \<in> set rest" by simp
  moreover from order_by_date_desc_sorted [of rows] a
  have "\<forall>y \<in> set rest. date_key (row_date y) \<le> date_key (row_date r)" by simp
  ultimately show ?thesis by auto
qed

lemma select_latest_matching:
  "select_latest mart nace metric = take 2 (order_by_date_desc (matching mart nace metric))"
  by (simp add: select_latest_def matching_def)

text \<open>
  C8, as the code has it. A metric outside the allow-list is refused with 400 before any
  lookup. For an allowed metric: 404 when no mart row has the category and metric; with
  one such row the previous value, the delta and the percentage are \<open>None\<close>; with two or
  more, the latest row is one of greatest date and the previous row one of greatest date
  among the others, the delta is the latest value minus the previous value, and the
  percentage is (delta / previous value) * 100, or \<open>None\<close> when the previous value equals
  zero.
\<close>

theorem get_latest_cases:
  "(metric \<notin> ALLOWED_METRICS \<longrightarrow> get_latest ops mart nace metric = Inl (HTTPException 400))
   \<and> (metric \<in> ALLOWED_METRICS \<and> matching mart nace metric = [] \<longrightarrow>
         get_latest ops mart nace metric = Inl (HTTPException 404))
   \<and> (\<forall>r. metric \<in> ALLOWED_METRICS \<and> matching mart nace metric = [r] \<longrightarrow>
         get_latest ops mart nace metric =
           Inr \<lparr>lr_nace = nace, lr_metric = metric, latest_date = row_date r,
                latest_value = float_of_decimal ops (row_value r),
                previous_value = None, delta = None, delta_percent = None\<rparr>)
   \<and> (\<forall>r p rest. metric \<in> ALLOWED_METRICS
          \<and> order_by_date_desc (matching mart nace metric) = r # p # rest \<longrightarrow>
         get_latest ops mart nace metric =
           Inr \<lparr>lr_nace = nace, lr_metric = metric, latest_date = row_date r,
                latest_value = float_of_decimal ops (row_value r),
                previous_value = Some (float_of_decimal ops (row_value p)),
                delta = Some (fsub ops (float_of_decimal ops (row_value r))
                                       (float_of_decimal ops (row_value p))),
                delta_percent =
                  (if feq ops (float_of_decimal ops (row_value p)) (float_of_int ops 0) then None
                   else Some (fmul ops
                                (fdiv ops (fsub ops (float_of_decimal ops (row_value r))
                                                    (float_of_decimal ops (row_value p)))
                                          (float_of_decimal ops (row_value p)))
                                (float_of_int ops 100)))\<rparr>
         \<and> (\<forall>x \<in> set (matching mart nace metric).
               date_key (row_date x) \<le> date_key (row_date r))
         \<and> (\<forall>x \<in> set (matching mart nace metric).
               x = r \<or> date_key (row_date x) \<le> date_key (row_date p)))"
proof (intro conjI allI impI ballI)
  assume "metric \<notin> ALLOWED_METRICS"
  then show "get_latest ops mart nace metric = Inl (HTTPException 400)"
    by (simp add: get_latest_def validate_metric_def bind_err_def)
next
  assume "metric \<in> ALLOWED_METRICS \<and> matching mart nace metric = []"
  then show "get_latest ops mart nace metric = Inl (HTTPException 404)"
    by (simp add: get_latest_def validate_metric_def bind_err_def select_latest_matching
          order_by_date_desc_def)
next
  fix r assume "metric \<in> ALLOWED_METRICS \<and> matching mart nace metric = [r]"
  then show "get_latest ops mart nace metric =
           Inr \<lparr>lr_nace = nace, lr_metric = metric, latest_date = row_date r,
                latest_value = float_of_decimal ops (row_value r),
                previous_value = None, delta = None, delta_percent = None\<rparr>"
    by (simp add: get_latest_def validate_metric_def bind_err_def select_latest_matching
          order_by_date_desc_def Let_def)
next
  fix r p rest
  assume a: "metric \<in> ALLOWED_METRICS \<and> order_by_date_desc (matching mart nace metric) = r # p # rest"
  then show "get_latest ops mart nace metric =
           Inr \<lparr>lr_nace = nace, lr_metric = metric, latest_date = row_date r,
                latest_value = float_of_decimal ops (row_value r),
                previous_value = Some (float_of_decimal ops (row_value p)),
                delta = Some (fsub ops (float_of_decimal ops (row_value r))
                                       (float_of_decimal ops (row_value p))),
                delta_percent =
                  (if feq ops (float_of_decimal ops (row_value p)) (float_of_int ops 0) then None
                   else Some (fmul ops
                                (fdiv ops (fsub ops (float_of_decimal ops (row_value r))
                                                    (float_of_decimal ops (row_value p)))
                                          (float_of_decimal ops (row_value p)))
                                (float_of_int ops 100)))\<rparr>"
    by (simp add: get_latest_def validate_metric_def bind_err_def select_latest_matching Let_def)
next
  fix r p rest x
  assume a: "metric \<in> ALLOWED_METRICS \<and> order_by_date_desc (matching mart nace metric) = r # p # rest"
    and b: "x \<in> set (matching mart nace metric)"
  from a b show "date_key (row_date x) \<le> date_key (row_date r)"
    using order_by_date_desc_hd_max by blast
next
  fix r p rest x
  assume a: "metric \<in> ALLOWED_METRICS \<and> order_by_date_desc (matching mart nace metric) = r # p # rest"
    and b: "x \<in> set (matching mart nace metric)"
  from b have "x \<in> set (order_by_date_desc (matching mart nace metric))" by simp
  with a have c: "x = r \<or> x = p \<or> x \<in> set rest" by auto
  from order_by_date_desc_sorted [of "matching mart nace metric"] a
  have "\<forall>y \<in> set rest. date_key (row_date y) \<le> date_key (row_date p)" by simp
  with c show "x = r \<or> date_key (row_date x) \<le> date_key (row_date p)" by auto
qed

lemma date_key_le:
  "date_key (Date y1 m1 d1) \<le> date_key (Date y2 m2 d2)
     \<longleftrightarrow> y1 < y2 \<or> (y1 = y2 \<and> (m1 < m2 \<or> (m1 = m2 \<and> d1 \<le> d2)))"
  by (auto simp: date_key_def less_eq_prod_def less_prod_def)

lemma uidxnom_allowed: "''uidxnom'' \<in> ALLOWED_METRICS"
  by (simp add: ALLOWED_METRICS_def)

lemma bogus_not_allowed: "''bogus'' \<notin> ALLOWED_METRICS"
  by (simp add: ALLOWED_METRICS_def)

lemma order_mart_2023_uidxnom:
  "order_by_date_desc (matching mart_2023 ''47'' ''uidxnom'') =
     [((Date 2023 2 1, ''47'', ''uidxnom''), (Finite False 1015 (- 1), 7)),
      ((Date 2023 1 1, ''47'', ''uidxnom''), (Finite False 1000 (- 1), 7))]"
  by (simp add: mart_2023_def matching_def row_metric_def order_by_date_desc_def date_key_le)

theorem get_latest_cases_witness:
  "''uidxnom'' \<in> ALLOWED_METRICS
   \<and> get_latest exact_ops mart_2023 ''47'' ''uidxnom'' =
       Inr \<lparr>lr_nace = ''47'', lr_metric = ''uidxnom'', latest_date = Date 2023 2 1,
            latest_value = 101.5, previous_value = Some 100, delta = Some 1.5,
            delta_percent = Some 1.5\<rparr>"
proof -
  from get_latest_cases [of "''uidxnom''" exact_ops mart_2023 "''47''"]
    uidxnom_allowed order_mart_2023_uidxnom
  have "get_latest exact_ops mart_2023 ''47'' ''uidxnom'' =
           Inr \<lparr>lr_nace = ''47'', lr_metric = ''uidxnom'',
                latest_date = row_date ((Date 2023 2 1, ''47'', ''uidxnom''), (Finite False 1015 (- 1), 7)),
                latest_value = float_of_decimal exact_ops (row_value ((Date 2023 2 1, ''47'', ''uidxnom''), (Finite False 1015 (- 1), 7))),
                previous_value = Some (float_of_decimal exact_ops (row_value ((Date 2023 1 1, ''47'', ''uidxnom''), (Finite False 1000 (- 1), 7)))),
                delta = Some (fsub exact_ops (float_of_decimal exact_ops (row_value ((Date 2023 2 1, ''47'', ''uidxnom''), (Finite False 1015 (- 1), 7))))
                                       (float_of_decimal exact_ops (row_value ((Date 2023 1 1, ''47'', ''uidxnom''), (Finite False 1000 (- 1), 7))))),
                delta_percent =
                  (if feq exact_ops (float_of_decimal exact_ops (row_value ((Date 2023 1 1, ''47'', ''uidxnom''), (Finite False 1000 (- 1), 7)))) (float_of_int exact_ops 0) then None
                   else Some (fmul exact_ops
                                (fdiv exact_ops (fsub exact_ops (float_of_decimal exact_ops (row_value ((Date 2023 2 1, ''47'', ''uidxnom''), (Finite False 1015 (- 1), 7))))
                                                    (float_of_decimal exact_ops (row_value ((Date 2023 1 1, ''47'', ''uidxnom''), (Finite False 1000 (- 1), 7)))))
                                          (float_of_decimal exact_ops (row_value ((Date 2023 1 1, ''47'', ''uidxnom''), (Finite False 1000 (- 1), 7)))))
                                (float_of_int exact_ops 100)))\<rparr>"
    by blast
  then have "get_latest exact_ops mart_2023 ''47'' ''uidxnom'' =
       Inr \<lparr>lr_nace = ''47'', lr_metric = ''uidxnom'', latest_date = Date 2023 2 1,
            latest_value = 101.5, previous_value = Some 100, delta = Some 1.5,
            delta_percent = Some 1.5\<rparr>"
    by (simp add: exact_ops_def row_date_def row_value_def divide_simps)
  with uidxnom_allowed show ?thesis by simp
qed

text \<open>
  C8, as the claim has it, fails for a metric outside the allow-list: no mart row matches
  the category and the metric "bogus", and the answer is 400, not 404.
\<close>

theorem get_latest_invalid_metric_is_400:
  "matching mart_2023 ''47'' ''bogus'' = []
   \<and> get_latest exact_ops mart_2023 ''47'' ''bogus'' = Inl (HTTPException 400)"
  by (simp add: mart_2023_def matching_def row_metric_def get_latest_def validate_metric_def
        bind_err_def bogus_not_allowed)

section \<open>The nominal-vs-real endpoint\<close>

lemma select_nominal_real_set:
  "set (select_nominal_real mart nace) =
     {r \<in> set mart. fst (snd (fst r)) = nace \<and> row_metric r \<in> {''uidxnom'', ''uidxreal''}}"
  by (auto simp: select_nominal_real_def)

lemma metric_map_None:
  "map_of (rev (map (\<lambda>r. (row_metric r, f r)) rows)) m = None \<longleftrightarrow> (\<forall>r \<in> set rows. row_metric r \<noteq> m)"
  by (auto simp: map_of_eq_None_iff image_iff)

lemma metric_map_Some:
  "map_of (rev (map (\<lambda>r. (row_metric r, f r)) rows)) m = Some x \<Longrightarrow>
     \<exists>r \<in> set rows. row_metric r = m \<and> x = f r"
  by (auto dest!: map_of_SomeD)

lemma row_key: "fst r = (row_date r, fst (snd (fst r)), row_metric r)"
  by (simp add: row_date_def row_metric_def)

text \<open>
  C3, as the code has it. The endpoint answers 404 when the category has no row of either
  metric. Otherwise it reports the most recent date at which either of the two metrics
  has a row, with each metric's value at that date, or \<open>None\<close> for a metric that has no
  row at that date; the gap is the nominal value minus the real value when both are
  present at that date and \<open>None\<close> otherwise.
\<close>

theorem nominal_vs_real_latest_date:
  "(select_nominal_real mart nace = [] \<longrightarrow> nominal_vs_real ops mart nace = Inl (HTTPException 404))
   \<and> (select_nominal_real mart nace \<noteq> [] \<longrightarrow>
        (\<exists>resp. nominal_vs_real ops mart nace = Inr resp
           \<and> nr_nace resp = nace
           \<and> nr_period_date resp \<in> row_date ` set (select_nominal_real mart nace)
           \<and> (\<forall>r \<in> set (select_nominal_real mart nace).
                 date_key (row_date r) \<le> date_key (nr_period_date resp))
           \<and> (nr_uidxnom resp = None
                 \<longleftrightarrow> (\<forall>r \<in> set mart. fst r \<noteq> (nr_period_date resp, nace, ''uidxnom'')))
           \<and> (\<forall>x. nr_uidxnom resp = Some x \<longrightarrow>
                 (\<exists>r \<in> set mart. fst r = (nr_period_date resp, nace, ''uidxnom'')
                     \<and> x = float_of_decimal ops (row_value r)))
           \<and> (nr_uidxreal resp = None
                 \<longleftrightarrow> (\<forall>r \<in> set mart. fst r \<noteq> (nr_period_date resp, nace, ''uidxreal'')))
           \<and> (\<forall>x. nr_uidxreal resp = Some x \<longrightarrow>
                 (\<exists>r \<in> set mart. fst r = (nr_period_date resp, nace, ''uidxreal'')
                     \<and> x = float_of_decimal ops (row_value r)))
           \<and> gap resp = (case (nr_uidxnom resp, nr_uidxreal resp) of
                           (Some a, Some b) \<Rightarrow> Some (fsub ops a b)
                         | _ \<Rightarrow> None)))"
proof (intro conjI impI)
  assume "select_nominal_real mart nace = []"
  then show "nominal_vs_real ops mart nace = Inl (HTTPException 404)"
    by (simp add: nominal_vs_real_def)
next
  assume ne: "select_nominal_real mart nace \<noteq> []"
  define rows where "rows = select_nominal_real mart nace"
  from ne obtain first rest where rows: "rows = first # rest"
    by (cases rows) (auto simp: rows_def)
  define d where "d = row_date first"
  define latest_rows where "latest_rows = filter (\<lambda>r. row_date r = d) rows"
  define mm where "mm = map_of (rev (map (\<lambda>r. (row_metric r, float_of_decimal ops (row_value r))) latest_rows))"
  define resp where "resp = \<lparr>nr_nace = nace, nr_period_date = d, nr_uidxnom = mm ''uidxnom'',
        nr_uidxreal = mm ''uidxreal'',
        gap = (case (mm ''uidxnom'', mm ''uidxreal'') of
                 (Some a, Some b) \<Rightarrow> Some (fsub ops a b) | _ \<Rightarrow> None)\<rparr>"
  have res: "nominal_vs_real ops mart nace = Inr resp"
    unfolding nominal_vs_real_def Let_def resp_def mm_def latest_rows_def d_def rows_def
    using rows [unfolded rows_def] by (simp only: list.case)
  have rows_set: "set rows = {r \<in> set mart. fst (snd (fst r)) = nace \<and> row_metric r \<in> {''uidxnom'', ''uidxreal''}}"
    by (simp add: rows_def select_nominal_real_set)
  have latest_set: "set latest_rows = {r \<in> set mart. fst (snd (fst r)) = nace
        \<and> row_metric r \<in> {''uidxnom'', ''uidxreal''} \<and> row_date r = d}"
    by (auto simp: latest_rows_def rows_set)
  have in_dates: "d \<in> row_date ` set rows" by (simp add: rows d_def)
  have is_max: "\<forall>r \<in> set rows. date_key (row_date r) \<le> date_key d"
  proof
    fix r assume "r \<in> set rows"
    then have "r \<in> set (filter (\<lambda>r. fst (snd (fst r)) = nace \<and> row_metric r \<in> {''uidxnom'', ''uidxreal''}) mart)"
      by (simp add: rows_set)
    moreover have "order_by_date_desc (filter (\<lambda>r. fst (snd (fst r)) = nace \<and> row_metric r \<in> {''uidxnom'', ''uidxreal''}) mart) = first # rest"
      using rows by (simp add: rows_def select_nominal_real_def)
    ultimately show "date_key (row_date r) \<le> date_key d"
      unfolding d_def by (rule order_by_date_desc_hd_max [rotated])
  qed
  have none: "mm m = None \<longleftrightarrow> (\<forall>r \<in> set mart. fst r \<noteq> (d, nace, m))"
    if "m \<in> {''uidxnom'', ''uidxreal''}" for m
  proof -
    have "mm m = None \<longleftrightarrow> (\<forall>r \<in> set latest_rows. row_metric r \<noteq> m)"
      unfolding mm_def by (rule metric_map_None)
    also have "\<dots> \<longleftrightarrow> (\<forall>r \<in> set mart. fst r \<noteq> (d, nace, m))"
    proof
      assume a: "\<forall>r \<in> set latest_rows. row_metric r \<noteq> m"
      show "\<forall>r \<in> set mart. fst r \<noteq> (d, nace, m)"
      proof
        fix r assume r: "r \<in> set mart"
        show "fst r \<noteq> (d, nace, m)"
        proof
          assume e: "fst r = (d, nace, m)"
          then have "row_date r = d" "fst (snd (fst r)) = nace" "row_metric r = m"
            by (simp_all add: row_date_def row_metric_def)
          with r that have "r \<in> set latest_rows" by (simp add: latest_set)
          with a \<open>row_metric r = m\<close> show False by blast
        qed
      qed
    next
      assume a: "\<forall>r \<in> set mart. fst r \<noteq> (d, nace, m)"
      show "\<forall>r \<in> set latest_rows. row_metric r \<noteq> m"
      proof
        fix r assume "r \<in> set latest_rows"
        then have r: "r \<in> set mart" "fst (snd (fst r)) = nace" "row_date r = d"
          by (simp_all add: latest_set)
        show "row_metric r \<noteq> m"
        proof
          assume "row_metric r = m"
          with r have "fst r = (d, nace, m)" using row_key [of r] by simp
          with a r(1) show False by blast
        qed
      qed
    qed
    finally show ?thesis .
  qed
  have some: "\<exists>r \<in> set mart. fst r = (d, nace, m) \<and> x = float_of_decimal ops (row_value r)"
    if "mm m = Some x" for m x
  proof -
    from that obtain r where r: "r \<in> set latest_rows" "row_metric r = m"
      "x = float_of_decimal ops (row_value r)"
      using metric_map_Some [of "\<lambda>r. float_of_decimal ops (row_value r)" latest_rows m x]
      unfolding mm_def by auto
    from r(1) have "r \<in> set mart" "fst (snd (fst r)) = nace" "row_date r = d"
      by (simp_all add: latest_set)
    with r(2) have "fst r = (d, nace, m)" using row_key [of r] by simp
    with \<open>r \<in> set mart\<close> r(3) show ?thesis by blast
  qed
  show "\<exists>resp. nominal_vs_real ops mart nace = Inr resp
           \<and> nr_nace resp = nace
           \<and> nr_period_date resp \<in> row_date ` set (select_nominal_real mart nace)
           \<and> (\<forall>r \<in> set (select_nominal_real mart nace).
                 date_key (row_date r) \<le> date_key (nr_period_date resp))
           \<and> (nr_uidxnom resp = None
                 \<longleftrightarrow> (\<forall>r \<in> set mart. fst r \<noteq> (nr_period_date resp, nace, ''uidxnom'')))
           \<and> (\<forall>x. nr_uidxnom resp = Some x \<longrightarrow>
                 (\<exists>r \<in> set mart. fst r = (nr_period_date resp, nace, ''uidxnom'')
                     \<and> x = float_of_decimal ops (row_value r)))
           \<and> (nr_uidxreal resp = None
                 \<longleftrightarrow> (\<forall>r \<in> set mart. fst r \<noteq> (nr_period_date resp, nace, ''uidxreal'')))
           \<and> (\<forall>x. nr_uidxreal resp = Some x \<longrightarrow>
                 (\<exists>r \<in> set mart. fst r = (nr_period_date resp, nace, ''uidxreal'')
                     \<and> x = float_of_decimal ops (row_value r)))
           \<and> gap resp = (case (nr_uidxnom resp, nr_uidxreal resp) of
                           (Some a, Some b) \<Rightarrow> Some (fsub ops a b)
                         | _ \<Rightarrow> None)"
  proof (intro exI [of _ resp] conjI allI impI)
    show "nominal_vs_real ops mart nace = Inr resp" by (rule res)
    show "nr_nace resp = nace" by (simp add: resp_def)
    show "nr_period_date resp \<in> row_date ` set (select_nominal_real mart nace)"
      using in_dates by (simp add: resp_def rows_def)
    show "\<forall>r \<in> set (select_nominal_real mart nace).
                 date_key (row_date r) \<le> date_key (nr_period_date resp)"
      using is_max by (simp add: resp_def rows_def)
    show "nr_uidxnom resp = None
                 \<longleftrightarrow> (\<forall>r \<in> set mart. fst r \<noteq> (nr_period_date resp, nace, ''uidxnom''))"
      using none [of "''uidxnom''"] by (simp add: resp_def)
    show "nr_uidxreal resp = None
                 \<longleftrightarrow> (\<forall>r \<in> set mart. fst r \<noteq> (nr_period_date resp, nace, ''uidxreal''))"
      using none [of "''uidxreal''"] by (simp add: resp_def)
    show "\<exists>r \<in> set mart. fst r = (nr_period_date resp, nace, ''uidxnom'')
                     \<and> x = float_of_decimal ops (row_value r)"
      if "nr_uidxnom resp = Some x" for x
      using some [of "''uidxnom''" x] that by (simp add: resp_def)
    show "\<exists>r \<in> set mart. fst r = (nr_period_date resp, nace, ''uidxreal'')
                     \<and> x = float_of_decimal ops (row_value r)"
      if "nr_uidxreal resp = Some x" for x
      using some [of "''uidxreal''" x] that by (simp add: resp_def)
    show "gap resp = (case (nr_uidxnom resp, nr_uidxreal resp) of
                           (Some a, Some b) \<Rightarrow> Some (fsub ops a b)
                         | _ \<Rightarrow> None)"
      by (simp add: resp_def)
  qed
qed

lemma select_mart_2023:
  "select_nominal_real mart_2023 ''47'' =
     [((Date 2023 2 1, ''47'', ''uidxnom''), (Finite False 1015 (- 1), 7)),
      ((Date 2023 1 1, ''47'', ''uidxreal''), (Finite False 990 (- 1), 7)),
      ((Date 2023 1 1, ''47'', ''uidxnom''), (Finite False 1000 (- 1), 7))]"
  by (simp add: mart_2023_def select_nominal_real_def row_metric_def order_by_date_desc_def date_key_le)

text \<open>
  C3, as the claim has it, fails: the mart holds both metrics at 2023-01-01 and the
  nominal index alone at 2023-02-01; the endpoint compares at 2023-02-01, where the real
  index is absent, and the gap is \<open>None\<close> although both metrics exist for the category.
\<close>

theorem nominal_vs_real_takes_latest_of_either:
  "nominal_vs_real exact_ops mart_2023 ''47'' =
     Inr \<lparr>nr_nace = ''47'', nr_period_date = Date 2023 2 1, nr_uidxnom = Some 101.5,
          nr_uidxreal = None, gap = None\<rparr>
   \<and> map_of mart_2023 (Date 2023 1 1, ''47'', ''uidxnom'') = Some (Finite False 1000 (- 1), 7)
   \<and> map_of mart_2023 (Date 2023 1 1, ''47'', ''uidxreal'') = Some (Finite False 990 (- 1), 7)"
proof -
  have "nominal_vs_real exact_ops mart_2023 ''47'' =
     Inr \<lparr>nr_nace = ''47'', nr_period_date = Date 2023 2 1, nr_uidxnom = Some 101.5,
          nr_uidxreal = None, gap = None\<rparr>"
    unfolding nominal_vs_real_def select_mart_2023
    by (simp add: row_date_def row_metric_def row_value_def exact_ops_def Let_def divide_simps)
  then show ?thesis by (simp add: mart_2023_def)
qed

theorem nominal_vs_real_latest_date_witness:
  "select_nominal_real mart_2023 ''47'' \<noteq> []
   \<and> (\<exists>resp. nominal_vs_real exact_ops mart_2023 ''47'' = Inr resp
         \<and> nr_period_date resp \<in> row_date ` set (select_nominal_real mart_2023 ''47''))"
proof -
  have a: "select_nominal_real mart_2023 ''47'' \<noteq> []" by (simp add: select_mart_2023)
  with nominal_vs_real_latest_date [of mart_2023 "''47''" exact_ops]
  have "\<exists>resp. nominal_vs_real exact_ops mart_2023 ''47'' = Inr resp
         \<and> nr_period_date resp \<in> row_date ` set (select_nominal_real mart_2023 ''47'')"
    by blast
  with a show ?thesis by blast
qed

section \<open>The period-to-date normalizer\<close>








lemma split_not_Nil [simp]: "str_split sep s \<noteq> []"
  by (induction s) (auto split: list.splits)














lemma digit_val_le_9: "is_digit b \<Longrightarrow> digit_val b \<le> 9"
  by (auto simp: is_digit_def digit_val_def)
















section \<open>Ingesting the same content twice\<close>

lemma upsert_all_append: "upsert_all (xs @ ys) table = upsert_all ys (upsert_all xs table)"
  by (simp add: upsert_all_def)

lemma execute_values_eq:
  "execute_values rows table =
     (if pages_ok (map fst rows) then Inr (upsert_all rows table) else Inl CardinalityViolation)"
proof (induction "length rows" arbitrary: rows table rule: less_induct)
  case less
  show ?case
  proof (cases rows)
    case Nil
    then show ?thesis by (simp add: upsert_all_def)
  next
    case (Cons r rs)
    have len: "length (drop 99 rs) < length rows" using Cons by simp
    have split: "upsert_all (drop 99 rs) (upsert_all (r # take 99 rs) table) = upsert_all (r # rs) table"
      using upsert_all_append [of "r # take 99 rs" "drop 99 rs" table] by simp
    have up: "upsert_statement (r # take 99 rs) table =
        (if distinct (fst r # take 99 (map fst rs)) then Inr (upsert_all (r # take 99 rs) table)
         else Inl CardinalityViolation)"
      by (simp add: upsert_statement_def upsert_all_def take_map)
    show ?thesis
      using less [OF len] split
      by (simp add: Cons up bind_err_def drop_map)
  qed
qed

lemma upd_add: "m(k \<mapsto> v) ++ n = m ++ (Map.empty(k \<mapsto> v) ++ n)"
  by (rule ext) (simp add: map_add_def split: option.splits)

lemma map_of_upsert_all: "map_of (upsert_all rows table) = map_of table ++ map_of (rev rows)"
proof (induction rows arbitrary: table)
  case Nil
  then show ?case by (simp add: upsert_all_def)
next
  case (Cons r rs)
  obtain k v where r: "r = (k, v)" by (cases r)
  have "map_of (upsert_all (r # rs) table) = map_of (upsert_all rs (AList.update k v table))"
    by (simp add: upsert_all_def r)
  also have "\<dots> = map_of (AList.update k v table) ++ map_of (rev rs)" by (rule Cons.IH)
  also have "\<dots> = (map_of table)(k \<mapsto> v) ++ map_of (rev rs)" by (simp add: update_conv')
  also have "\<dots> = map_of table ++ (Map.empty(k \<mapsto> v) ++ map_of (rev rs))"
    by (rule upd_add)
  also have "Map.empty(k \<mapsto> v) ++ map_of (rev rs) = map_of (rev (r # rs))"
    by (simp add: r)
  finally show ?case .
qed


lemma map_add_twice: "(m ++ n) ++ n = m ++ n"
  by (rule ext) (simp add: map_add_def split: option.splits)

lemma map_option_add: "map_option f \<circ> (m ++ n) = (map_option f \<circ> m) ++ (map_option f \<circ> n)"
  by (rule ext) (simp add: map_add_def split: option.splits)

lemma content_stamp:
  "map_option fst \<circ> map_of (rev (stamp t rows)) = map_option fst \<circ> map_of (rev (stamp u rows))"
proof -
  have "map_option fst \<circ> map_of (rev (stamp t rows)) = map_of (map (\<lambda>(k, v). (k, fst v)) (rev (stamp t rows)))" for t
    by (simp add: map_of_map)
  moreover have "map (\<lambda>(k, v). (k, fst v)) (rev (stamp t rows)) = rev (map (\<lambda>(k, v). (k, fst v)) rows)" for t
    by (simp add: stamp_def rev_map split_def)
  ultimately show ?thesis by simp
qed

lemma content_upsert_stamp:
  "table_content (upsert_all (stamp t rows) table)
     = table_content table ++ (map_option fst \<circ> map_of (rev (stamp 0 rows)))"
  unfolding table_content_def map_of_upsert_all map_option_add
  using content_stamp [of t rows 0] by simp

lemma content_upsert_twice:
  "table_content (upsert_all (stamp u rows) (upsert_all (stamp t rows) table))
     = table_content (upsert_all (stamp t rows) table)"
  by (simp add: content_upsert_stamp map_add_twice)

lemma keys_upsert_all:
  "set (map fst (upsert_all rows table)) = set (map fst table) \<union> set (map fst rows)"
proof (induction rows arbitrary: table)
  case Nil
  then show ?case by (simp add: upsert_all_def)
next
  case (Cons r rs)
  obtain k v where r: "r = (k, v)" by (cases r)
  have "upsert_all (r # rs) table = upsert_all rs (AList.update k v table)"
    by (simp add: upsert_all_def r)
  with Cons.IH [of "AList.update k v table"] show ?case
    by (auto simp: r dom_update)
qed

lemma keys_upsert_present:
  "set (map fst rows) \<subseteq> set (map fst table) \<Longrightarrow> map fst (upsert_all rows table) = map fst table"
proof (induction rows arbitrary: table)
  case Nil
  then show ?case by (simp add: upsert_all_def)
next
  case (Cons r rs)
  obtain k v where r: "r = (k, v)" by (cases r)
  from Cons.prems have k: "k \<in> set (map fst table)" by (simp add: r)
  then have m: "map fst (AList.update k v table) = map fst table" by (simp add: update_keys)
  have "upsert_all (r # rs) table = upsert_all rs (AList.update k v table)"
    by (simp add: upsert_all_def r)
  moreover from Cons.prems m have "set (map fst rs) \<subseteq> set (map fst (AList.update k v table))"
    by simp
  ultimately show ?case using Cons.IH [of "AList.update k v table"] m by simp
qed

lemma keys_stamp [simp]: "map fst (stamp t rows) = map fst rows"
  by (simp add: stamp_def split_def)

lemma keys_upsert_twice:
  "map fst (upsert_all (stamp u rows) (upsert_all (stamp t rows) table))
     = map fst (upsert_all (stamp t rows) table)"
proof -
  have "set (map fst (stamp u rows)) \<subseteq> set (map fst (upsert_all (stamp t rows) table))"
    using keys_upsert_all [of "stamp t rows" table] by simp
  then show ?thesis by (rule keys_upsert_present)
qed

lemma raw_rows_stamp: "raw_rows_of t parsed = stamp t (raw_rows_of 0 parsed)"
  by (simp add: raw_rows_of_def stamp_def comp_def)

lemma unpivot_stamp: "unpivot d t row = stamp t (unpivot d 0 row)"
  by (simp add: unpivot_present stamp_def comp_def)

lemma mart_rows_of_row_stamp:
  "mart_rows_of_row t row = map_sum id (stamp t) (mart_rows_of_row 0 row)"
proof (cases "period_to_date (period_key row)")
  case (Inl e)
  then show ?thesis by (simp add: mart_rows_of_row_def bind_err_def)
next
  case (Inr pd)
  then show ?thesis
    by (cases pd) (simp_all add: mart_rows_of_row_def bind_err_def stamp_def unpivot_stamp [of _ t])
qed

lemma map_err_map_sum:
  "(\<And>x. f x = map_sum id h (g x)) \<Longrightarrow> map_err f xs = map_sum id (map h) (map_err g xs)"
proof (induction xs)
  case Nil
  then show ?case by simp
next
  case (Cons x xs)
  show ?case
  proof (cases "g x")
    case (Inl e)
    with Cons.prems [of x] show ?thesis by (simp add: bind_err_def)
  next
    case (Inr y)
    with Cons.prems [of x] Cons.IH [OF Cons.prems] show ?thesis
      by (cases "map_err g xs") (simp_all add: bind_err_def)
  qed
qed

lemma stamp_concat: "concat (map (stamp t) ms) = stamp t (concat ms)"
  by (induction ms) (simp_all add: stamp_def)

lemma mart_rows_of_stamp: "mart_rows_of t parsed = map_sum id (stamp t) (mart_rows_of 0 parsed)"
proof -
  have "map_err (mart_rows_of_row t) parsed
          = map_sum id (map (stamp t)) (map_err (mart_rows_of_row 0) parsed)"
    by (rule map_err_map_sum) (rule mart_rows_of_row_stamp)
  then show ?thesis
    by (cases "map_err (mart_rows_of_row 0) parsed")
       (simp_all add: mart_rows_of_def bind_err_def stamp_concat)
qed

text \<open>What a call of \<open>ingest\<close> does to the store, for parsed rows that are not empty.\<close>

lemma store_after_eq:
  assumes "parse_csv_rows rows_raw = Inr parsed" "parsed \<noteq> []"
  shows "store_after mode rows_raw t db =
     (if pages_ok (map fst (raw_rows_of 0 parsed)) then
        (case mart_rows_of 0 parsed of
           Inl e \<Rightarrow> db
         | Inr m0 \<Rightarrow>
             if pages_ok (map fst m0) then
               (case valid_dates parsed of
                  Inl e \<Rightarrow> db
                | Inr ds \<Rightarrow> \<lparr>raw_table = upsert_all (stamp t (raw_rows_of 0 parsed)) (raw_table db),
                             mart_table = upsert_all (stamp t m0) (mart_table db)\<rparr>)
             else db)
      else db)"
proof -
  have r: "execute_values (raw_rows_of t parsed) (raw_table db) =
      (if pages_ok (map fst (raw_rows_of 0 parsed))
       then Inr (upsert_all (stamp t (raw_rows_of 0 parsed)) (raw_table db))
       else Inl CardinalityViolation)"
    by (simp add: execute_values_eq raw_rows_stamp [of t])
  show ?thesis
  proof (cases "mart_rows_of 0 parsed")
    case (Inl e)
    then have "mart_rows_of t parsed = Inl e" by (simp add: mart_rows_of_stamp [of t])
    with assms r Inl show ?thesis
      by (simp add: store_after_def ingest_def bind_err_def)
  next
    case (Inr m0)
    then have m: "mart_rows_of t parsed = Inr (stamp t m0)" by (simp add: mart_rows_of_stamp [of t])
    have e: "execute_values (stamp t m0) (mart_table db) =
      (if pages_ok (map fst m0) then Inr (upsert_all (stamp t m0) (mart_table db))
       else Inl CardinalityViolation)"
      by (simp add: execute_values_eq)
    from assms r Inr m e show ?thesis
      by (cases "valid_dates parsed") (simp_all add: store_after_def ingest_def bind_err_def)
  qed
qed

lemma store_after_unparsed:
  "parse_csv_rows rows_raw = Inl e \<Longrightarrow> store_after mode rows_raw t db = db"
  by (simp add: store_after_def ingest_def bind_err_def)

lemma store_after_empty:
  "parse_csv_rows rows_raw = Inr [] \<Longrightarrow> store_after mode rows_raw t db = db"
  by (simp add: store_after_def ingest_def bind_err_def)

text \<open>
  C4. For every source content, every store and any two timestamps: after a second
  ingestion of the same content both tables have the keys they had after the first, in
  the same order, and every key has the same values; only timestamps can differ. This
  holds also when the ingestion raises, since the transaction is then rolled back.
\<close>

theorem ingest_idempotent:
  "table_content (raw_table (store_after mode rows_raw t2 (store_after mode rows_raw t1 db)))
     = table_content (raw_table (store_after mode rows_raw t1 db))
   \<and> map fst (raw_table (store_after mode rows_raw t2 (store_after mode rows_raw t1 db)))
     = map fst (raw_table (store_after mode rows_raw t1 db))
   \<and> table_content (mart_table (store_after mode rows_raw t2 (store_after mode rows_raw t1 db)))
     = table_content (mart_table (store_after mode rows_raw t1 db))
   \<and> map fst (mart_table (store_after mode rows_raw t2 (store_after mode rows_raw t1 db)))
     = map fst (mart_table (store_after mode rows_raw t1 db))"
proof (cases "parse_csv_rows rows_raw")
  case (Inl e)
  then show ?thesis by (simp add: store_after_unparsed)
next
  case (Inr parsed)
  show ?thesis
  proof (cases "parsed = []")
    case True
    with Inr show ?thesis by (simp add: store_after_empty)
  next
    case False
    note eq = store_after_eq [OF Inr False]
    show ?thesis
    proof (cases "mart_rows_of 0 parsed")
      case (Inl e)
      then show ?thesis by (simp add: eq)
    next
      case m: (Inr m0)
      show ?thesis
      proof (cases "valid_dates parsed")
        case (Inl e)
        with m show ?thesis by (simp add: eq)
      next
        case (Inr ds)
        with m show ?thesis
          by (simp add: eq content_upsert_twice keys_upsert_twice)
      qed
    qed
  qed
qed


theorem ingest_idempotent_witness:
  "map fst (mart_table (store_after ''mock''
       [standard_header, [''202301'', ''NACEIDX-47'', ''nan'', ''Infinity'', ''abc'']] 2
       (store_after ''mock''
          [standard_header, [''202301'', ''NACEIDX-47'', ''nan'', ''Infinity'', ''abc'']] 1
          empty_store)))
   = [(Date 2023 1 1, ''47'', ''uidxnom''), (Date 2023 1 1, ''47'', ''uidxreal'')]"
proof -
  have "mart_table (store_after ''mock''
         [standard_header, [''202301'', ''NACEIDX-47'', ''nan'', ''Infinity'', ''abc'']] 1 empty_store)
       = [((Date 2023 1 1, ''47'', ''uidxnom''), (NaN False False 0, 1)),
          ((Date 2023 1 1, ''47'', ''uidxreal''), (Infinity False, 1))]"
    unfolding store_after_def ingest_def parse_csv_rows_standard no_month_column_special
      empty_store_def
    by (simp add: parse_row_special period_202301 nace_47 ingest_defs)
  with ingest_idempotent [of "''mock''"
      "[standard_header, [''202301'', ''NACEIDX-47'', ''nan'', ''Infinity'', ''abc'']]" 2 1 empty_store]
  show ?thesis by simp
qed

end
